theory Spec2Isabelle
  imports Complex_Main "HOL-Library.AList" "HOL-Library.Stream"
begin

section \<open>Numbers and vectors\<close>

text \<open>
  The simulation computes with JavaScript numbers. They are modelled as mathematical
  reals: overflow, NaN and the infinities of IEEE doubles are outside the model, and so
  is rounding, with one exception. The guarantee of the radius query of the grid depends
  on how two quotients are rounded; for it the functions of the grid are given a second
  time, with the division of the machine, in the section after the grid.

  A quotient by zero is an infinity or NaN in JavaScript and 0 in HOL, so the model says
  nothing about a run in which a divisor is zero. The divisors are the cell size of a
  grid, the wave speed, which \<open>sanitize\<close> keeps at 0.1 or more, and the birth time
  divisor, which is 60 by default.

  \<open>Vector3\<close> is the three.js vector class, which is a library and not part of the
  sources. Only the operations that the simulation calls are modelled, with their
  documented meaning: \<open>distanceTo\<close> is the Euclidean distance, \<open>normalize\<close> divides
  by the length, or by 1 when the length is zero.
\<close>

datatype Vector3 = Vector3 (vx: real) (vy: real) (vz: real)

definition subVectors :: "Vector3 \<Rightarrow> Vector3 \<Rightarrow> Vector3" where
  "subVectors a b = Vector3 (vx a - vx b) (vy a - vy b) (vz a - vz b)"

definition dot :: "Vector3 \<Rightarrow> Vector3 \<Rightarrow> real" where
  "dot a b = vx a * vx b + vy a * vy b + vz a * vz b"

definition vlength :: "Vector3 \<Rightarrow> real" where
  "vlength a = sqrt (vx a * vx a + vy a * vy a + vz a * vz a)"

definition normalize :: "Vector3 \<Rightarrow> Vector3" where
  "normalize a =
     (let l = (if vlength a = 0 then 1 else vlength a)
      in Vector3 (vx a / l) (vy a / l) (vz a / l))"

definition addScaledVector :: "Vector3 \<Rightarrow> Vector3 \<Rightarrow> real \<Rightarrow> Vector3" where
  "addScaledVector a d k = Vector3 (vx a + vx d * k) (vy a + vy d * k) (vz a + vz d * k)"

definition distanceTo :: "Vector3 \<Rightarrow> Vector3 \<Rightarrow> real" where
  "distanceTo a b =
     (let dx = vx a - vx b; dy = vy a - vy b; dz = vz a - vz b
      in sqrt (dx * dx + dy * dy + dz * dz))"

section \<open>SpatialGrid\<close>

text \<open>
  The grid is a JavaScript \<open>Map\<close> from the string \<open>"cx,cy,cz"\<close> to an array of items.
  The three components are integers (results of \<open>Math.floor\<close>), and printing three
  integers separated by commas is injective, so the key is modelled as the triple
  itself. The \<open>Map\<close> is an association list in insertion order: \<open>map_of\<close> is
  \<open>get\<close>, \<open>AList.update\<close> is \<open>set\<close> (it replaces the value of a key in place
  and appends a new key at the end).

  The functions \<open>insert\<close>, \<open>clear\<close> and \<open>size\<close> of the class carry the suffix
  \<open>_grid\<close>, since HOL has constants of these names.
\<close>

type_synonym cell_key = "int \<times> int \<times> int"

record 'a SpatialGrid =
  cellSize :: real
  grid :: "(cell_key \<times> 'a list) list"
  minBounds :: Vector3
  maxBounds :: Vector3

definition SpatialGrid_new :: "real \<Rightarrow> Vector3 \<Rightarrow> Vector3 \<Rightarrow> 'a SpatialGrid" where
  "SpatialGrid_new cs lo hi = \<lparr>cellSize = cs, grid = [], minBounds = lo, maxBounds = hi\<rparr>"

definition getCellKey :: "'a SpatialGrid \<Rightarrow> real \<Rightarrow> real \<Rightarrow> real \<Rightarrow> cell_key" where
  "getCellKey g px py pz =
     (\<lfloor>px / cellSize g\<rfloor>, \<lfloor>py / cellSize g\<rfloor>, \<lfloor>pz / cellSize g\<rfloor>)"

definition insert_grid :: "'a SpatialGrid \<Rightarrow> Vector3 \<Rightarrow> 'a \<Rightarrow> 'a SpatialGrid" where
  "insert_grid g p item =
     (let key = getCellKey g (vx p) (vy p) (vz p);
          grid1 = (if map_of (grid g) key = None then AList.update key [] (grid g) else grid g)
      in case map_of grid1 key of
           Some cell \<Rightarrow> g\<lparr>grid := AList.update key (cell @ [item]) grid1\<rparr>
         | None \<Rightarrow> g\<lparr>grid := grid1\<rparr>)"

definition query :: "'a SpatialGrid \<Rightarrow> Vector3 \<Rightarrow> 'a list" where
  "query g p =
     (let key = getCellKey g (vx p) (vy p) (vz p)
      in case map_of (grid g) key of Some items \<Rightarrow> items | None \<Rightarrow> [])"

text \<open>
  The three nested \<open>for\<close> loops of \<open>queryRadius\<close> run \<open>dx\<close>, \<open>dy\<close>, \<open>dz\<close> from
  \<open>-cellRadius\<close> to \<open>cellRadius\<close> and append the bucket of each visited cell to the
  result, in that order.
\<close>

definition queryRadius :: "'a SpatialGrid \<Rightarrow> Vector3 \<Rightarrow> real \<Rightarrow> 'a list" where
  "queryRadius g p radius =
     (let cellRadius = \<lceil>radius / cellSize g\<rceil>;
          centerKey = getCellKey g (vx p) (vy p) (vz p);
          cx = fst centerKey; cy = fst (snd centerKey); cz = snd (snd centerKey)
      in concat (map (\<lambda>dx.
           concat (map (\<lambda>dy.
             concat (map (\<lambda>dz.
               (case map_of (grid g) (cx + dx, cy + dy, cz + dz) of
                  Some items \<Rightarrow> items
                | None \<Rightarrow> []))
               [- cellRadius .. cellRadius]))
             [- cellRadius .. cellRadius]))
           [- cellRadius .. cellRadius]))"

definition clear_grid :: "'a SpatialGrid \<Rightarrow> 'a SpatialGrid" where
  "clear_grid g = g\<lparr>grid := []\<rparr>"

definition size_grid :: "'a SpatialGrid \<Rightarrow> nat" where
  "size_grid g = foldl (\<lambda>count items. count + length items) 0 (map snd (grid g))"

text \<open>Inserting a list of (position, item) pairs, one after the other.\<close>

definition insert_all :: "'a SpatialGrid \<Rightarrow> (Vector3 \<times> 'a) list \<Rightarrow> 'a SpatialGrid" where
  "insert_all g ps = foldl (\<lambda>h e. insert_grid h (fst e) (snd e)) g ps"

text \<open>
  A script of calls on one grid, and the values the calls return, for stating that two
  grids behave alike.
\<close>

datatype 'a grid_call =
    Insert Vector3 'a
  | Query Vector3
  | QueryRadius Vector3 real
  | Clear
  | Size

datatype 'a grid_result = Unit | Items "'a list" | Count nat

fun grid_step :: "'a SpatialGrid \<Rightarrow> 'a grid_call \<Rightarrow> 'a grid_result \<times> 'a SpatialGrid" where
  "grid_step g (Insert p item) = (Unit, insert_grid g p item)"
| "grid_step g (Query p) = (Items (query g p), g)"
| "grid_step g (QueryRadius p r) = (Items (queryRadius g p r), g)"
| "grid_step g Clear = (Unit, clear_grid g)"
| "grid_step g Size = (Count (size_grid g), g)"

fun grid_run :: "'a SpatialGrid \<Rightarrow> 'a grid_call list \<Rightarrow> 'a grid_result list" where
  "grid_run g [] = []"
| "grid_run g (c # cs) = fst (grid_step g c) # grid_run (snd (grid_step g c)) cs"

section \<open>The grid with the division of the machine\<close>

text \<open>
  The cell of a coordinate is the floor of a quotient, and the number of cells that a
  radius query scans is the ceiling of a quotient. These are the two places of the grid
  where the rounding of a quotient can change an integer, so the functions that compute
  them are given a second time, with the quotient that the machine computes.

  \<open>divide_binary64 x y\<close> is the exact quotient rounded to the nearest number with a
  significand of 53 bits, a tie going to the even significand: the division of IEEE 754
  binary64 in the rounding mode of JavaScript, for results in the normal range (overflow,
  subnormal results, NaN and the sign of zero are outside the model). \<open>binaryExponent\<close>
  finds the exponent \<open>e\<close> with \<open>2 ^ e \<le> x < 2 ^ (e + 1)\<close> by halving or doubling, at
  most 1100 times, which covers the range of binary64. \<open>Math.floor\<close> and \<open>Math.ceil\<close>
  are exact, and so are the sums of cell indices, which are integers far below \<open>2 ^ 53\<close>.
  A decimal literal of the program, such as \<open>0.1\<close>, denotes \<open>roundToDouble (1 / 10)\<close>.
\<close>

definition pow2 :: "int \<Rightarrow> real" where
  "pow2 e = (if 0 \<le> e then 2 ^ nat e else 1 / 2 ^ nat (- e))"

fun binaryExponent :: "nat \<Rightarrow> real \<Rightarrow> int" where
  "binaryExponent 0 x = 0"
| "binaryExponent (Suc n) x =
     (if 2 \<le> x then binaryExponent n (x / 2) + 1
      else if x < 1 then binaryExponent n (x * 2) - 1
      else 0)"

definition roundHalfEven :: "real \<Rightarrow> int" where
  "roundHalfEven y =
     (let f = \<lfloor>y\<rfloor>; r = y - of_int f
      in if r < 1 / 2 then f else if 1 / 2 < r then f + 1 else if even f then f else f + 1)"

definition roundToDouble :: "real \<Rightarrow> real" where
  "roundToDouble x =
     (if x = 0 then 0
      else (let a = \<bar>x\<bar>;
                e = binaryExponent 1100 a;
                ulp = pow2 (e - 52);
                n = roundHalfEven (a / ulp)
            in sgn x * (of_int n * ulp)))"

definition divide_binary64 :: "real \<Rightarrow> real \<Rightarrow> real" where
  "divide_binary64 x y = roundToDouble (x / y)"

definition getCellKey_binary64 :: "'a SpatialGrid \<Rightarrow> real \<Rightarrow> real \<Rightarrow> real \<Rightarrow> cell_key" where
  "getCellKey_binary64 g px py pz =
     (\<lfloor>divide_binary64 px (cellSize g)\<rfloor>,
      \<lfloor>divide_binary64 py (cellSize g)\<rfloor>,
      \<lfloor>divide_binary64 pz (cellSize g)\<rfloor>)"

definition insert_binary64 :: "'a SpatialGrid \<Rightarrow> Vector3 \<Rightarrow> 'a \<Rightarrow> 'a SpatialGrid" where
  "insert_binary64 g p item =
     (let key = getCellKey_binary64 g (vx p) (vy p) (vz p);
          grid1 = (if map_of (grid g) key = None then AList.update key [] (grid g) else grid g)
      in case map_of grid1 key of
           Some cell \<Rightarrow> g\<lparr>grid := AList.update key (cell @ [item]) grid1\<rparr>
         | None \<Rightarrow> g\<lparr>grid := grid1\<rparr>)"

definition queryRadius_binary64 :: "'a SpatialGrid \<Rightarrow> Vector3 \<Rightarrow> real \<Rightarrow> 'a list" where
  "queryRadius_binary64 g p radius =
     (let cellRadius = \<lceil>divide_binary64 radius (cellSize g)\<rceil>;
          centerKey = getCellKey_binary64 g (vx p) (vy p) (vz p);
          cx = fst centerKey; cy = fst (snd centerKey); cz = snd (snd centerKey)
      in concat (map (\<lambda>dx.
           concat (map (\<lambda>dy.
             concat (map (\<lambda>dz.
               (case map_of (grid g) (cx + dx, cy + dy, cz + dz) of
                  Some items \<Rightarrow> items
                | None \<Rightarrow> []))
               [- cellRadius .. cellRadius]))
             [- cellRadius .. cellRadius]))
           [- cellRadius .. cellRadius]))"

definition insert_all_binary64 :: "'a SpatialGrid \<Rightarrow> (Vector3 \<times> 'a) list \<Rightarrow> 'a SpatialGrid" where
  "insert_all_binary64 g ps = foldl (\<lambda>h e. insert_binary64 h (fst e) (snd e)) g ps"

text \<open>
  The machine puts a coordinate in the cell in which the exact quotient lies: the rounding
  of the quotient does not carry it across an integer.
\<close>

definition sameCell :: "'a SpatialGrid \<Rightarrow> real \<Rightarrow> bool" where
  "sameCell g x \<longleftrightarrow> \<lfloor>divide_binary64 x (cellSize g)\<rfloor> = \<lfloor>x / cellSize g\<rfloor>"

definition sameCells :: "'a SpatialGrid \<Rightarrow> Vector3 \<Rightarrow> bool" where
  "sameCells g p \<longleftrightarrow> sameCell g (vx p) \<and> sameCell g (vy p) \<and> sameCell g (vz p)"

section \<open>Settings and environment\<close>

text \<open>
  Of \<open>SimulationSettings\<close> and \<open>GalaxyConfig\<close> the model keeps the fields that the
  simulation core reads; the fields of \<open>GalaxyConfig\<close> carry the prefix \<open>cfg_\<close>.
  \<open>galaxyConfigs\<close> is initialised with three entries and no code removes one, and
  the getter \<open>maxConnectionDistance\<close> reads \<open>galaxyConfigs[0]\<close>: the array is
  modelled as its first entry and the list of the others.
\<close>

datatype ColorProfile = MiddleAged | Young | Old

record GalaxyConfig =
  cfg_position :: Vector3
  cfg_radius :: real
  cfg_arms :: real
  cfg_armWidthFactor :: real
  cfg_centralBulgeFraction :: real
  cfg_ageProfile :: ColorProfile
  cfg_starCount :: int

record SimulationSettings =
  activationChance :: real
  deactivationChance :: real
  minDistanceFromCenter :: real
  centralBulgeFraction :: real
  activeStarLightIntensity :: real
  behindCloudOpacity :: real
  insideCloudOpacity :: real
  clearOpacity :: real
  behindCloudLightIntensity :: real
  insideCloudLightIntensity :: real
  waveSpeed :: real
  waveMaxRadius :: real
  starBirthReplacementRatio :: real
  starBirthPopulationThreshold :: real
  maxStars :: real
  galaxyConfigs :: "GalaxyConfig \<times> GalaxyConfig list"
  starMinLifetime :: real
  starLifetimeRange :: real
  starLifeSupportProbability :: real
  starEmissionMinInterval :: real
  starEmissionIntervalRange :: real
  starAgingThreshold :: real
  starAgingFadeFactor :: real
  starMinAgingOpacity :: real
  dustCloudMinRadius :: real
  dustCloudRadiusRange :: real
  spiralArmWidthMultiplier :: real
  starBirthTimeDivisor :: real

definition maxConnectionDistance :: "SimulationSettings \<Rightarrow> real" where
  "maxConnectionDistance st =
     (let config = fst (galaxyConfigs st)
      in cfg_armWidthFactor config * cfg_radius config * spiralArmWidthMultiplier st * 0.4)"

text \<open>
  \<open>Math.random()\<close> and \<open>Date.now()\<close> read the outside world. The environment holds
  the values that the successive calls return: every call takes the head of its stream.
  \<open>Date.now()\<close> is in milliseconds. The third stream stands for the procedural placement
  of \<open>createSpiralGalaxy\<close>, see there.
\<close>

record Env =
  randoms :: "real stream"
  clock :: "real stream"
  placements :: "(Vector3 \<times> ColorProfile) stream"

definition Math_random :: "Env \<Rightarrow> real \<times> Env" where
  "Math_random env = (shd (randoms env), env\<lparr>randoms := stl (randoms env)\<rparr>)"

definition Date_now :: "Env \<Rightarrow> real \<times> Env" where
  "Date_now env = (shd (clock env), env\<lparr>clock := stl (clock env)\<rparr>)"

definition next_placement :: "Env \<Rightarrow> (Vector3 \<times> ColorProfile) \<times> Env" where
  "next_placement env = (shd (placements env), env\<lparr>placements := stl (placements env)\<rparr>)"

section \<open>Star\<close>

text \<open>
  A \<open>Star\<close> object is identified by its \<open>id\<close>, which the constructor takes from the
  static counter \<open>Star.nextId\<close>; the record holds the other fields, and the counter and
  the objects live in the state of the manager below. Of the three.js mesh the model
  keeps the opacity of the material, the colour of the material as one of the four values
  the code assigns (all derived from \<open>baseColor\<close>), and the intensity of the point light
  when the mesh has one.
\<close>

datatype MaterialColor = BaseColor | ActiveColor | InsideCloudColor | BehindCloudColor

record Star =
  position :: Vector3
  galaxyCenter :: Vector3
  age :: real
  lifetime :: real
  hasDormantPlanet :: bool
  isActive :: bool
  activationTime :: "real option"
  emissionTimer :: real
  emissionInterval :: real
  isEmitting :: bool
  canSupportLife :: bool
  isGoingSupernova :: bool
  isObscured :: bool
  opacity :: real
  materialColor :: MaterialColor
  light :: "real option"

text \<open>
  \<open>generateStarColor\<close> draws one number and then, except for the A and B spectral
  types of the young and the middle-aged profile, a second one; only the draws are kept.
\<close>

definition generateStarColor :: "ColorProfile \<Rightarrow> Env \<Rightarrow> Env" where
  "generateStarColor profile env =
     (let (rand, env1) = Math_random env
      in case profile of
           Old \<Rightarrow> snd (Math_random env1)
         | Young \<Rightarrow>
             (if rand < 0.80 then snd (Math_random env1)
              else if rand < 0.97 then env1
              else snd (Math_random env1))
         | MiddleAged \<Rightarrow>
             (if rand < 0.99 then snd (Math_random env1)
              else if rand < 0.999 then env1
              else snd (Math_random env1)))"

definition Star_new ::
  "SimulationSettings \<Rightarrow> Vector3 \<Rightarrow> Vector3 \<Rightarrow> ColorProfile \<Rightarrow> Env \<Rightarrow> Star \<times> Env" where
  "Star_new st pos center profile env =
     (let env1 = generateStarColor profile env;
          (r1, env2) = Math_random env1;
          (r2, env3) = Math_random env2;
          (r3, env4) = Math_random env3;
          (r4, env5) = Math_random env4
      in (\<lparr>position = pos,
           galaxyCenter = center,
           age = 0,
           lifetime = starMinLifetime st + r1 * starLifetimeRange st,
           hasDormantPlanet = False,
           isActive = False,
           activationTime = None,
           emissionTimer = r3 * starEmissionIntervalRange st,
           emissionInterval = r4 * starEmissionIntervalRange st + starEmissionMinInterval st,
           isEmitting = False,
           canSupportLife = (r2 > 1 - starLifeSupportProbability st),
           isGoingSupernova = False,
           isObscured = False,
           opacity = clearOpacity st,
           materialColor = BaseColor,
           light = None\<rparr>, env5))"

definition addLight :: "SimulationSettings \<Rightarrow> Star \<Rightarrow> Star" where
  "addLight st s =
     (case light s of None \<Rightarrow> s\<lparr>light := Some (activeStarLightIntensity st)\<rparr> | Some l \<Rightarrow> s)"

definition removeLight :: "Star \<Rightarrow> Star" where
  "removeLight s = s\<lparr>light := None\<rparr>"

definition distanceFromCenter :: "Star \<Rightarrow> real" where
  "distanceFromCenter s =
     (let dx = vx (position s) - vx (galaxyCenter s);
          dz = vz (position s) - vz (galaxyCenter s)
      in sqrt (dx * dx + dz * dz))"

text \<open>
  \<open>Star.update\<close>, in the order of the source: the age, the supernova draw with its early
  return, the fade of an ageing star, then either the activation of a star that was
  never active or the deactivation and the emission timer of an active one. A draw is
  made only where the source reaches the call of \<open>Math.random\<close>.
\<close>

definition supernovaCheck :: "Star \<Rightarrow> bool" where
  "supernovaCheck s \<longleftrightarrow> age s \<ge> lifetime s \<and> \<not> isGoingSupernova s"

definition agingFade :: "SimulationSettings \<Rightarrow> Star \<Rightarrow> Star" where
  "agingFade st s =
     (let lifeFraction = age s / lifetime s
      in if lifeFraction > starAgingThreshold st
         then (let fadeFactor = 1 - (lifeFraction - starAgingThreshold st) * starAgingFadeFactor st
               in s\<lparr>opacity := max (starMinAgingOpacity st) (fadeFactor * clearOpacity st)\<rparr>)
         else s)"

definition activate :: "SimulationSettings \<Rightarrow> Env \<Rightarrow> Star \<Rightarrow> Star \<times> Env" where
  "activate st env s =
     (let (now, env1) = Date_now env;
          s1 = s\<lparr>isActive := True, activationTime := Some (now / 1000), emissionTimer := 0\<rparr>;
          s2 = addLight st s1
      in (s2\<lparr>materialColor := ActiveColor\<rparr>, env1))"

definition deactivate :: "Star \<Rightarrow> Star" where
  "deactivate s =
     (let s1 = s\<lparr>isActive := False, isEmitting := False, activationTime := None,
                 hasDormantPlanet := True\<rparr>;
          s2 = removeLight s1
      in s2\<lparr>materialColor := BaseColor\<rparr>)"

definition emissionTick :: "SimulationSettings \<Rightarrow> real \<Rightarrow> Star \<Rightarrow> Star" where
  "emissionTick st dt s =
     (let s1 = s\<lparr>emissionTimer := emissionTimer s - dt\<rparr>
      in if emissionTimer s1 \<le> 0
         then (let s2 = (if distanceFromCenter s1 \<ge> minDistanceFromCenter st
                         then s1\<lparr>isEmitting := True\<rparr> else s1)
               in s2\<lparr>emissionTimer := emissionInterval s2\<rparr>)
         else s1)"

definition Star_update :: "SimulationSettings \<Rightarrow> real \<Rightarrow> Env \<Rightarrow> Star \<Rightarrow> Star \<times> Env" where
  "Star_update st dt env s0 =
     (let s1 = s0\<lparr>age := age s0 + dt\<rparr>;
          (u0, env1) = (if supernovaCheck s1 then Math_random env else (0, env))
      in if supernovaCheck s1 \<and> u0 < activationChance st
         then (s1\<lparr>isGoingSupernova := True\<rparr>, env1)
         else
           (let s2 = agingFade st s1
            in if \<not> isActive s2 \<and> \<not> hasDormantPlanet s2 \<and> canSupportLife s2
               then (if distanceFromCenter s2 \<ge> minDistanceFromCenter st
                     then (let (u, env2) = Math_random env1
                           in if u < activationChance st * dt
                              then activate st env2 s2
                              else (s2, env2))
                     else (s2, env1))
               else if isActive s2
               then (let (u, env2) = Math_random env1;
                         s3 = (if u < deactivationChance st * dt then deactivate s2 else s2)
                     in (emissionTick st dt s3, env2))
               else (s2, env1)))"

definition consumeEmission :: "Star \<Rightarrow> bool \<times> Star" where
  "consumeEmission s = (isEmitting s, s\<lparr>isEmitting := False\<rparr>)"

definition isAlive :: "Star \<Rightarrow> bool" where
  "isAlive s \<longleftrightarrow> age s < lifetime s"

definition applyDustObscuration :: "SimulationSettings \<Rightarrow> bool \<Rightarrow> bool \<Rightarrow> Star \<Rightarrow> Star" where
  "applyDustObscuration st insideCloud behindCloud s =
     (let obscured = (insideCloud \<or> behindCloud)
      in if obscured = isObscured s then s
         else
           (let s1 = s\<lparr>isObscured := obscured\<rparr>
            in if behindCloud
               then s1\<lparr>opacity := behindCloudOpacity st,
                       materialColor := BehindCloudColor,
                       light := map_option (\<lambda>l. behindCloudLightIntensity st) (light s1)\<rparr>
               else if insideCloud
               then s1\<lparr>opacity := insideCloudOpacity st,
                       materialColor := InsideCloudColor,
                       light := map_option (\<lambda>l. insideCloudLightIntensity st) (light s1)\<rparr>
               else s1\<lparr>opacity := clearOpacity st,
                       materialColor := (if isActive s1 then ActiveColor else BaseColor),
                       light := map_option (\<lambda>l. activeStarLightIntensity st) (light s1)\<rparr>))"

text \<open>
  A run of \<open>Star.update\<close> calls on one star: each call has its own elapsed time and its
  own environment.
\<close>

fun Star_updates :: "SimulationSettings \<Rightarrow> Star \<Rightarrow> (real \<times> Env) list \<Rightarrow> Star" where
  "Star_updates st s [] = s"
| "Star_updates st s (c # cs) = Star_updates st (fst (Star_update st (fst c) (snd c) s)) cs"

section \<open>RadioWave, Connection, DustCloud\<close>

text \<open>
  A reference to a \<open>Star\<close> is the id of the star. The fields of \<open>RadioWave\<close> and of
  \<open>DustCloud\<close> whose names \<open>Star\<close> also uses carry the prefixes \<open>wave_\<close> and
  \<open>cloud_\<close>. The three.js lines and meshes are not modelled.
\<close>

record RadioWave =
  wave_star :: nat
  origin :: Vector3
  wave_radius :: real
  maxRadius :: real
  speed :: real
  wave_isActive :: bool

definition RadioWave_new :: "SimulationSettings \<Rightarrow> nat \<Rightarrow> Star \<Rightarrow> RadioWave" where
  "RadioWave_new st a s =
     \<lparr>wave_star = a, origin = position s, wave_radius = 0,
      maxRadius = waveMaxRadius st, speed = waveSpeed st, wave_isActive = True\<rparr>"

definition RadioWave_update :: "real \<Rightarrow> RadioWave \<Rightarrow> RadioWave" where
  "RadioWave_update dt w =
     (let w1 = w\<lparr>wave_radius := wave_radius w + speed w * dt\<rparr>
      in if wave_radius w1 \<ge> maxRadius w1 then w1\<lparr>wave_isActive := False\<rparr> else w1)"

record Connection =
  star1 :: nat
  star2 :: nat

record DustCloud =
  cloud_position :: Vector3
  cloud_radius :: real

section \<open>NetworkManager\<close>

text \<open>
  The state of the manager, together with the \<open>Star\<close> objects it refers to: \<open>objs\<close>
  gives the current fields of the star with a given id, and \<open>nextId\<close> is the static
  counter \<open>Star.nextId\<close>. A star that has left the array \<open>stars\<close> still exists as
  an object, and a \<open>Connection\<close> that refers to it still reads its fields. An entry of
  \<open>lastGalaxies\<close> is reduced to its \<open>config\<close>. The scene, the arm glows and the
  supernova callback are rendering and are left out.
\<close>

record Galaxy =
  g_config :: "GalaxyConfig option"

record NetworkManager =
  settings :: SimulationSettings
  objs :: "nat \<Rightarrow> Star"
  nextId :: nat
  stars :: "nat list"
  waves :: "RadioWave list"
  connections :: "Connection list"
  dustClouds :: "DustCloud list"
  lastGalaxies :: "Galaxy list"
  waveGrid :: "RadioWave SpatialGrid"
  dustGrid :: "DustCloud SpatialGrid"
  starGrid :: "nat SpatialGrid"

datatype error = TypeError

text \<open>
  A call either returns, or throws with the manager in the state it had reached.
\<close>

datatype 'a result = Ok 'a | Threw error NetworkManager

subsection \<open>Connections and dust\<close>

definition existingConnection :: "NetworkManager \<Rightarrow> nat \<Rightarrow> nat \<Rightarrow> bool" where
  "existingConnection m a b =
     list_ex (\<lambda>c. (star1 c = a \<and> star2 c = b) \<or> (star1 c = b \<and> star2 c = a)) (connections m)"

definition isStarInDustCloud :: "NetworkManager \<Rightarrow> Star \<Rightarrow> bool" where
  "isStarInDustCloud m s =
     list_ex (\<lambda>cloud. distanceTo (position s) (cloud_position cloud) < cloud_radius cloud)
       (dustClouds m)"

definition cloudBlocks :: "Vector3 \<Rightarrow> Vector3 \<Rightarrow> real \<Rightarrow> DustCloud \<Rightarrow> bool" where
  "cloudBlocks pointA direction len cloud =
     (let toCloud = subVectors (cloud_position cloud) pointA;
          projectionLength = dot toCloud direction
      in if projectionLength < 0 \<or> projectionLength > len then False
         else (let closestPoint = addScaledVector pointA direction projectionLength;
                   distanceToCloud = distanceTo closestPoint (cloud_position cloud)
               in distanceToCloud < cloud_radius cloud))"

definition isBlockedByDust :: "NetworkManager \<Rightarrow> Vector3 \<Rightarrow> Vector3 \<Rightarrow> bool" where
  "isBlockedByDust m pointA pointB =
     (let direction0 = subVectors pointB pointA;
          len = vlength direction0;
          direction = normalize direction0
      in list_ex (cloudBlocks pointA direction len) (dustClouds m))"

definition createConnection :: "NetworkManager \<Rightarrow> nat \<Rightarrow> nat \<Rightarrow> NetworkManager" where
  "createConnection m a b =
     (if existingConnection m a b then m
      else if distanceTo (position (objs m a)) (position (objs m b))
                > maxConnectionDistance (settings m) then m
      else if isStarInDustCloud m (objs m a) \<or> isStarInDustCloud m (objs m b) then m
      else if isBlockedByDust m (position (objs m a)) (position (objs m b)) then m
      else m\<lparr>connections := connections m @ [\<lparr>star1 = a, star2 = b\<rparr>]\<rparr>)"

subsection \<open>Creating stars\<close>

text \<open>
  \<open>createSpiralGalaxy(center, count, radius, arms, config)\<close> constructs
  \<open>floor(count * bulgeFraction)\<close> bulge stars and then the remaining arm stars. The
  coordinates and the colour profile of each star are computed from further random
  draws with trigonometric functions and a three.js rotation; no property below depends
  on them, and the model takes them from the environment, which leaves them arbitrary.
  \<open>radius\<close> and \<open>arms\<close> enter these coordinates only and are not parameters of the
  model.

  JavaScript does not check the type of an argument. The constructor of \<open>Star\<close> first
  takes the id from the counter, then calls \<open>galaxyCenter.clone()\<close>: when the value
  bound to \<open>center\<close> is a \<open>Vector3\<close> the construction goes on, and when it is a
  \<open>GalaxyConfig\<close>, an object without a method \<open>clone\<close>, the call throws a
  \<open>TypeError\<close>.
\<close>

datatype center_arg = CenterVector Vector3 | CenterConfig GalaxyConfig

definition spawnStar :: "center_arg \<Rightarrow> Env \<Rightarrow> NetworkManager \<Rightarrow> (NetworkManager \<times> Env) result" where
  "spawnStar center env m =
     (let ((pos, profile), env1) = next_placement env;
          a = nextId m;
          m1 = m\<lparr>nextId := a + 1\<rparr>
      in case center of
           CenterConfig cfg \<Rightarrow> Threw TypeError m1
         | CenterVector c \<Rightarrow>
             (let (s, env2) = Star_new (settings m1) pos c profile env1
              in Ok (m1\<lparr>objs := (objs m1)(a := s), stars := stars m1 @ [a]\<rparr>, env2)))"

fun spawnStars :: "nat \<Rightarrow> center_arg \<Rightarrow> Env \<Rightarrow> NetworkManager \<Rightarrow> (NetworkManager \<times> Env) result" where
  "spawnStars 0 center env m = Ok (m, env)"
| "spawnStars (Suc n) center env m =
     (case spawnStar center env m of
        Threw e m1 \<Rightarrow> Threw e m1
      | Ok (m1, env1) \<Rightarrow> spawnStars n center env1 m1)"

definition createSpiralGalaxy ::
  "center_arg \<Rightarrow> int \<Rightarrow> GalaxyConfig option \<Rightarrow> Env \<Rightarrow> NetworkManager
     \<Rightarrow> (NetworkManager \<times> Env) result" where
  "createSpiralGalaxy center count config env m =
     (let bulgeFraction = (case config of Some c \<Rightarrow> cfg_centralBulgeFraction c
                           | None \<Rightarrow> centralBulgeFraction (settings m));
          bulgeCount = \<lfloor>of_int count * bulgeFraction\<rfloor>;
          armCount = count - bulgeCount
      in case spawnStars (nat bulgeCount) center env m of
           Threw e m1 \<Rightarrow> Threw e m1
         | Ok (m1, env1) \<Rightarrow> spawnStars (nat armCount) center env1 m1)"

subsection \<open>The phases of update\<close>

text \<open>
  \<open>update(deltaTime)\<close> is the sequence of the phases below. A loop over an array that
  removes elements with \<open>splice\<close> while it runs from the last index to the first is a
  \<open>filter\<close>; \<open>deadStars\<close> is a set of ids, kept here as a list, of which the code
  asks membership only.
\<close>

definition updateStar :: "real \<Rightarrow> NetworkManager \<times> Env \<Rightarrow> nat \<Rightarrow> NetworkManager \<times> Env" where
  "updateStar dt me a =
     (let m = fst me; env = snd me;
          (s1, env1) = Star_update (settings m) dt env (objs m a);
          (wasEmitting, s2) = consumeEmission s1;
          waves1 = (if wasEmitting then waves m @ [RadioWave_new (settings m) a s2] else waves m);
          s3 = (if isGoingSupernova s2 then s2\<lparr>isGoingSupernova := False\<rparr> else s2)
      in (m\<lparr>objs := (objs m)(a := s3), waves := waves1\<rparr>, env1))"

definition updateStars :: "real \<Rightarrow> Env \<Rightarrow> NetworkManager \<Rightarrow> NetworkManager \<times> Env" where
  "updateStars dt env m = foldl (updateStar dt) (m, env) (stars m)"

definition removeDeadStars :: "NetworkManager \<Rightarrow> nat list \<times> NetworkManager" where
  "removeDeadStars m =
     (filter (\<lambda>a. \<not> isAlive (objs m a)) (stars m),
      m\<lparr>stars := filter (\<lambda>a. isAlive (objs m a)) (stars m)\<rparr>)"

definition array_get :: "'a list \<Rightarrow> int \<Rightarrow> 'a option" where
  "array_get xs i = (if 0 \<le> i \<and> i < int (length xs) then Some (xs ! nat i) else None)"

text \<open>
  The birth phase; \<open>spawnInRandomGalaxy\<close> is the block under the comment
  ``Spawn in a random galaxy''. \<open>lastGalaxies[galaxyIndex]\<close> is \<open>undefined\<close> outside the array, and
  reading \<open>galaxy.config\<close> then throws. The call is \<open>createSpiralGalaxy(galaxy.config, 1)\<close>:
  the config is bound to \<open>center\<close>, 1 to \<open>count\<close>, and \<open>radius\<close>, \<open>arms\<close> and
  \<open>config\<close> are \<open>undefined\<close>.
\<close>

definition spawnInRandomGalaxy :: "Env \<Rightarrow> NetworkManager \<Rightarrow> (NetworkManager \<times> Env) result" where
  "spawnInRandomGalaxy env m =
     (let (v, env1) = Math_random env;
          galaxyIndex = \<lfloor>v * real (length (lastGalaxies m))\<rfloor>
      in case array_get (lastGalaxies m) galaxyIndex of
           None \<Rightarrow> Threw TypeError m
         | Some galaxy \<Rightarrow>
             (case g_config galaxy of
                Some cfg \<Rightarrow> createSpiralGalaxy (CenterConfig cfg) 1 None env1 m
              | None \<Rightarrow> Ok (m, env1)))"

definition starBirth :: "real \<Rightarrow> Env \<Rightarrow> NetworkManager \<Rightarrow> (NetworkManager \<times> Env) result" where
  "starBirth dt env m =
     (if real (length (stars m)) < maxStars (settings m) \<and>
         real (length (stars m)) < starBirthPopulationThreshold (settings m)
      then (let (u, env1) = Math_random env
            in if u < starBirthReplacementRatio (settings m) * dt / starBirthTimeDivisor (settings m)
               then spawnInRandomGalaxy env1 m
               else Ok (m, env1))
      else Ok (m, env))"

definition pruneConnections :: "nat list \<Rightarrow> NetworkManager \<Rightarrow> NetworkManager" where
  "pruneConnections deadStars m =
     m\<lparr>connections :=
         filter (\<lambda>conn. \<not> (\<not> isActive (objs m (star1 conn)) \<or> \<not> isActive (objs m (star2 conn)) \<or>
                          star1 conn \<in> set deadStars \<or> star2 conn \<in> set deadStars))
           (connections m)\<rparr>"

definition updateWaves :: "real \<Rightarrow> NetworkManager \<Rightarrow> NetworkManager" where
  "updateWaves dt m = m\<lparr>waves := filter wave_isActive (map (RadioWave_update dt) (waves m))\<rparr>"

definition rebuildWaveGrid :: "NetworkManager \<Rightarrow> NetworkManager" where
  "rebuildWaveGrid m =
     m\<lparr>waveGrid := insert_all (clear_grid (waveGrid m)) (map (\<lambda>w. (origin w, w)) (waves m))\<rparr>"

definition activeStars :: "NetworkManager \<Rightarrow> nat list" where
  "activeStars m =
     filter (\<lambda>a. isActive (objs m a) \<and> activationTime (objs m a) \<noteq> None) (stars m)"

definition rebuildStarGrid :: "NetworkManager \<Rightarrow> NetworkManager" where
  "rebuildStarGrid m =
     m\<lparr>starGrid := insert_all (clear_grid (starGrid m))
                      (map (\<lambda>a. (position (objs m a), a)) (activeStars m))\<rparr>"

text \<open>
  The handshake phase. The key of a pair is the string \<open>"minId-maxId"\<close>; ids are natural
  numbers, so the string determines the two numbers and the key is modelled as the pair.
  \<open>checkedPairs\<close> is a set of keys, kept as a list.
\<close>

definition pairKey :: "nat \<Rightarrow> nat \<Rightarrow> nat \<times> nat" where
  "pairKey a b = (min a b, max a b)"

definition handshakePair ::
  "real \<Rightarrow> nat \<Rightarrow> (nat \<times> nat) list \<times> NetworkManager \<Rightarrow> nat
     \<Rightarrow> (nat \<times> nat) list \<times> NetworkManager" where
  "handshakePair currentTime a cm b =
     (let checkedPairs = fst cm; m = snd cm
      in if a = b then cm
         else if pairKey a b \<in> set checkedPairs then cm
         else
           (let checked1 = checkedPairs @ [pairKey a b];
                distance = distanceTo (position (objs m a)) (position (objs m b))
            in if distance > maxConnectionDistance (settings m) then (checked1, m)
               else
                 (let timeForRoundTrip = (2 * distance) / waveSpeed (settings m)
                  in case activationTime (objs m a) of
                       None \<Rightarrow> (checked1, m)
                     | Some ta \<Rightarrow>
                         (case activationTime (objs m b) of
                            None \<Rightarrow> (checked1, m)
                          | Some tb \<Rightarrow>
                              (if currentTime - ta \<ge> timeForRoundTrip \<and>
                                  currentTime - tb \<ge> timeForRoundTrip
                               then (checked1, createConnection m a b)
                               else (checked1, m))))))"

definition handshakeStar ::
  "real \<Rightarrow> (nat \<times> nat) list \<times> NetworkManager \<Rightarrow> nat \<Rightarrow> (nat \<times> nat) list \<times> NetworkManager" where
  "handshakeStar currentTime cm a =
     (let m = snd cm;
          nearbyStars = queryRadius (starGrid m) (position (objs m a))
                          (maxConnectionDistance (settings m))
      in foldl (handshakePair currentTime a) cm nearbyStars)"

definition handshake :: "real \<Rightarrow> nat list \<Rightarrow> NetworkManager \<Rightarrow> NetworkManager" where
  "handshake currentTime active m = snd (foldl (handshakeStar currentTime) ([], m) active)"

definition handshakePhase :: "Env \<Rightarrow> NetworkManager \<Rightarrow> NetworkManager \<times> Env" where
  "handshakePhase env m =
     (let m1 = rebuildStarGrid m;
          active = activeStars m;
          (now, env1) = Date_now env;
          currentTime = now / 1000
      in (handshake currentTime active m1, env1))"

text \<open>The obscuration phase: the planar distance uses the x and the z coordinate.\<close>

definition planarDistance :: "Vector3 \<Rightarrow> Vector3 \<Rightarrow> real" where
  "planarDistance p c =
     (let dx = vx p - vx c; dz = vz p - vz c in sqrt (dx * dx + dz * dz))"

definition nearbyClouds :: "NetworkManager \<Rightarrow> Star \<Rightarrow> DustCloud list" where
  "nearbyClouds m s =
     queryRadius (dustGrid m) (position s)
       (dustCloudMinRadius (settings m) + dustCloudRadiusRange (settings m))"

definition obscuredByDust :: "NetworkManager \<Rightarrow> Star \<Rightarrow> bool" where
  "obscuredByDust m s =
     list_ex (\<lambda>cloud. planarDistance (position s) (cloud_position cloud) \<le> cloud_radius cloud)
       (nearbyClouds m s)"

definition obscureStar :: "NetworkManager \<Rightarrow> nat \<Rightarrow> NetworkManager" where
  "obscureStar m a =
     m\<lparr>objs := (objs m)
          (a := applyDustObscuration (settings m) (obscuredByDust m (objs m a)) False (objs m a))\<rparr>"

definition dustObscuration :: "NetworkManager \<Rightarrow> NetworkManager" where
  "dustObscuration m = foldl obscureStar m (stars m)"

subsection \<open>update\<close>

text \<open>
  \<open>afterBirth\<close> is the part of \<open>update\<close> that follows the birth phase: it is reached
  only when the birth phase has not thrown.
\<close>

definition afterBirth :: "real \<Rightarrow> nat list \<Rightarrow> Env \<Rightarrow> NetworkManager \<Rightarrow> NetworkManager" where
  "afterBirth deltaTime deadStars env m3 =
     (let m4 = pruneConnections deadStars m3;
          m5 = updateWaves deltaTime m4;
          m6 = rebuildWaveGrid m5;
          (m7, env3) = handshakePhase env m6
      in dustObscuration m7)"

definition update :: "real \<Rightarrow> Env \<Rightarrow> NetworkManager \<Rightarrow> NetworkManager result" where
  "update deltaTime env m =
     (let (m1, env1) = updateStars deltaTime env m;
          (deadStars, m2) = removeDeadStars m1
      in case starBirth deltaTime env1 m2 of
           Threw e m3 \<Rightarrow> Threw e m3
         | Ok (m3, env2) \<Rightarrow> Ok (afterBirth deltaTime deadStars env2 m3))"

section \<open>Default settings and sample environments\<close>

text \<open>
  The values with which the class \<open>SimulationSettings\<close> initialises its fields, and
  environments in which every draw and every clock reading has the same value.
\<close>

definition galaxy0 :: GalaxyConfig where
  "galaxy0 = \<lparr>cfg_position = Vector3 (-450) (-120) (-150), cfg_radius = 200, cfg_arms = 3,
     cfg_armWidthFactor = 5.5, cfg_centralBulgeFraction = 0.15, cfg_ageProfile = MiddleAged,
     cfg_starCount = 15000\<rparr>"

definition galaxy1 :: GalaxyConfig where
  "galaxy1 = \<lparr>cfg_position = Vector3 450 180 (-150), cfg_radius = 240, cfg_arms = 2,
     cfg_armWidthFactor = 4.0, cfg_centralBulgeFraction = 0.25, cfg_ageProfile = Old,
     cfg_starCount = 10000\<rparr>"

definition galaxy2 :: GalaxyConfig where
  "galaxy2 = \<lparr>cfg_position = Vector3 0 60 450, cfg_radius = 180, cfg_arms = 4,
     cfg_armWidthFactor = 6.5, cfg_centralBulgeFraction = 0.10, cfg_ageProfile = Young,
     cfg_starCount = 15000\<rparr>"

definition defaultSettings :: SimulationSettings where
  "defaultSettings =
     \<lparr>activationChance = 0.0005,
      deactivationChance = 0.0005,
      minDistanceFromCenter = 50,
      centralBulgeFraction = 0.15,
      activeStarLightIntensity = 4,
      behindCloudOpacity = 0.05,
      insideCloudOpacity = 0.2,
      clearOpacity = 0.9,
      behindCloudLightIntensity = 0.05,
      insideCloudLightIntensity = 0.2,
      waveSpeed = 5,
      waveMaxRadius = 30,
      starBirthReplacementRatio = 0.10,
      starBirthPopulationThreshold = 5000,
      maxStars = 50000,
      galaxyConfigs = (galaxy0, [galaxy1, galaxy2]),
      starMinLifetime = 60,
      starLifetimeRange = 120,
      starLifeSupportProbability = 0.4,
      starEmissionMinInterval = 5,
      starEmissionIntervalRange = 10,
      starAgingThreshold = 0.8,
      starAgingFadeFactor = 5,
      starMinAgingOpacity = 0.3,
      dustCloudMinRadius = 2.7075,
      dustCloudRadiusRange = 9.025,
      spiralArmWidthMultiplier = 0.07,
      starBirthTimeDivisor = 60\<rparr>"

definition constEnv :: "real \<Rightarrow> real \<Rightarrow> Env" where
  "constEnv u t =
     \<lparr>randoms = sconst u, clock = sconst t, placements = sconst (Vector3 0 0 0, MiddleAged)\<rparr>"

text \<open>
  A star as the constructor makes it when every draw is 0.9, and the manager as its
  constructor leaves it, for given settings (taken after \<open>sanitize\<close>), a given store of
  star objects and a given value of the id counter: no stars, waves, connections, clouds
  or galaxies, and three empty grids with the cell sizes and the bounds of the source.
\<close>

definition sampleStar :: Star where
  "sampleStar =
     fst (Star_new defaultSettings (Vector3 100 0 0) (Vector3 0 0 0) MiddleAged (constEnv 0.9 0))"

definition NetworkManager_new :: "SimulationSettings \<Rightarrow> (nat \<Rightarrow> Star) \<Rightarrow> nat \<Rightarrow> NetworkManager" where
  "NetworkManager_new st store counter =
     \<lparr>settings = st, objs = store, nextId = counter, stars = [], waves = [], connections = [],
      dustClouds = [], lastGalaxies = [],
      waveGrid = SpatialGrid_new (waveMaxRadius st * 2)
                   (Vector3 (-1000) (-100) (-1000)) (Vector3 1000 100 1000),
      dustGrid = SpatialGrid_new (dustCloudMinRadius st + dustCloudRadiusRange st)
                   (Vector3 (-1000) (-100) (-1000)) (Vector3 1000 100 1000),
      starGrid = SpatialGrid_new (maxConnectionDistance st)
                   (Vector3 (-1000) (-100) (-1000)) (Vector3 1000 100 1000)\<rparr>"

section \<open>Properties stated about the model\<close>

text \<open>
  The invariant of a star: it has an activation time exactly when it is active, and a star
  that has gone dormant once is not active.
\<close>

definition star_inv :: "Star \<Rightarrow> bool" where
  "star_inv s \<longleftrightarrow>
     (activationTime s \<noteq> None \<longleftrightarrow> isActive s) \<and> (hasDormantPlanet s \<longrightarrow> \<not> isActive s)"

text \<open>
  The environment in which \<open>Star.update\<close> makes its activation or deactivation draw: the
  supernova draw has consumed one number when the star has reached its lifetime.
\<close>

definition afterSupernovaDraw :: "real \<Rightarrow> Env \<Rightarrow> Star \<Rightarrow> Env" where
  "afterSupernovaDraw dt env s =
     (if lifetime s \<le> age s + dt \<and> \<not> isGoingSupernova s then snd (Math_random env) else env)"

text \<open>
  At most one connection for each unordered pair of stars: no two entries of the
  collection, at different indices, join the same two stars in either orientation.
\<close>

definition samePair :: "Connection \<Rightarrow> Connection \<Rightarrow> bool" where
  "samePair c d \<longleftrightarrow>
     (star1 c = star1 d \<and> star2 c = star2 d) \<or> (star1 c = star2 d \<and> star2 c = star1 d)"

definition uniquePairs :: "NetworkManager \<Rightarrow> bool" where
  "uniquePairs m \<longleftrightarrow>
     (\<forall>i < length (connections m). \<forall>j < length (connections m).
        i \<noteq> j \<longrightarrow> \<not> samePair (connections m ! i) (connections m ! j))"

definition connKey :: "Connection \<Rightarrow> nat \<times> nat" where
  "connKey c = pairKey (star1 c) (star2 c)"

text \<open>
  The states that calls of \<open>update\<close> and \<open>createConnection\<close> reach from a manager
  without connections. A call of \<open>update\<close> that throws leaves a state too.
\<close>

inductive reachable :: "NetworkManager \<Rightarrow> bool" where
  start: "connections m = [] \<Longrightarrow> reachable m"
| create: "reachable m \<Longrightarrow> reachable (createConnection m a b)"
| update_returns: "reachable m \<Longrightarrow> update dt env m = Ok m1 \<Longrightarrow> reachable m1"
| update_throws: "reachable m \<Longrightarrow> update dt env m = Threw e m1 \<Longrightarrow> reachable m1"




text \<open>
  The scenario of the specification: star 0 at (0,0,0) and star 1 at (10,0,0), both active
  since the clock read 0, with a propagation speed of 5 and a maximal connection distance
  of 5 * 100 * 0.1 * 0.4 = 20, and a given list of dust clouds.
\<close>

definition activeStarAt :: "Vector3 \<Rightarrow> real \<Rightarrow> Star" where
  "activeStarAt p t =
     sampleStar\<lparr>position := p, galaxyCenter := Vector3 0 0 (-100), isActive := True,
                activationTime := Some t\<rparr>"

definition scenarioSettings :: SimulationSettings where
  "scenarioSettings =
     defaultSettings\<lparr>galaxyConfigs := (galaxy0\<lparr>cfg_armWidthFactor := 5, cfg_radius := 100\<rparr>, []),
                     spiralArmWidthMultiplier := 0.1\<rparr>"

definition scenarioStore :: "nat \<Rightarrow> Star" where
  "scenarioStore =
     (\<lambda>a. sampleStar)(0 := activeStarAt (Vector3 0 0 0) 0, 1 := activeStarAt (Vector3 10 0 0) 0)"

definition scenario :: "DustCloud list \<Rightarrow> NetworkManager" where
  "scenario clouds =
     (NetworkManager_new scenarioSettings scenarioStore 2)\<lparr>stars := [0, 1], dustClouds := clouds\<rparr>"

text \<open>
  The handshake condition in the words of the specification: the distance is at most the
  maximal connection distance, and each of the two stars has an activation time that lies
  at least the round-trip time \<open>2 * distance / propagationSpeed\<close> before the current
  time. A pair is unobstructed when neither star is inside a dust cloud and the segment
  between them is not blocked by one, as \<open>createConnection\<close> tests it.
\<close>

definition handshakeReady :: "NetworkManager \<Rightarrow> real \<Rightarrow> nat \<Rightarrow> nat \<Rightarrow> bool" where
  "handshakeReady m currentTime a b =
     (let distance = distanceTo (position (objs m a)) (position (objs m b));
          requiredTime = 2 * distance / waveSpeed (settings m)
      in distance \<le> maxConnectionDistance (settings m) \<and>
         (case activationTime (objs m a) of
            None \<Rightarrow> False | Some ta \<Rightarrow> currentTime - ta \<ge> requiredTime) \<and>
         (case activationTime (objs m b) of
            None \<Rightarrow> False | Some tb \<Rightarrow> currentTime - tb \<ge> requiredTime))"

definition unobstructed :: "NetworkManager \<Rightarrow> nat \<Rightarrow> nat \<Rightarrow> bool" where
  "unobstructed m a b \<longleftrightarrow>
     \<not> isStarInDustCloud m (objs m a) \<and> \<not> isStarInDustCloud m (objs m b) \<and>
     \<not> isBlockedByDust m (position (objs m a)) (position (objs m b))"

text \<open>The loops of the handshake phase visit these pairs, in this order.\<close>

definition handshakePairs :: "NetworkManager \<Rightarrow> nat list \<Rightarrow> (nat \<times> nat) list" where
  "handshakePairs m active =
     concat (map (\<lambda>a. map (Pair a)
                (queryRadius (starGrid m) (position (objs m a))
                   (maxConnectionDistance (settings m)))) active)"

definition handshakeFold ::
  "real \<Rightarrow> (nat \<times> nat) list \<times> NetworkManager \<Rightarrow> (nat \<times> nat) list
     \<Rightarrow> (nat \<times> nat) list \<times> NetworkManager" where
  "handshakeFold currentTime cm ps =
     foldl (\<lambda>cm p. handshakePair currentTime (fst p) cm (snd p)) cm ps"

definition connectedKeys :: "NetworkManager \<Rightarrow> (nat \<times> nat) set" where
  "connectedKeys m = set (map connKey (connections m))"

text \<open>
  The scenario with a connection between the two stars, and star 0 half a second before
  the end of its lifetime of 168 seconds.
\<close>

definition dyingScenario :: NetworkManager where
  "dyingScenario =
     (scenario [])\<lparr>connections := [\<lparr>star1 = 0, star2 = 1\<rparr>],
                   objs := scenarioStore(0 := (activeStarAt (Vector3 0 0 0) 0)\<lparr>age := 167.5\<rparr>)\<rparr>"

text \<open>
  The scenario with one dust cloud, registered in the list of clouds and in the dust grid
  as \<open>generateDustClouds\<close> does: a cloud of radius 5 high above star 0, at (0,100,0),
  and a cloud of radius 5 at (3,0,4), at planar distance 5 from star 0.
\<close>

definition cloudScenario :: "DustCloud \<Rightarrow> NetworkManager" where
  "cloudScenario c =
     (scenario [c])\<lparr>dustGrid := insert_grid (dustGrid (scenario [c])) (cloud_position c) c\<rparr>"

definition highCloud :: DustCloud where
  "highCloud = \<lparr>cloud_position = Vector3 0 100 0, cloud_radius = 5\<rparr>"

definition nearCloud :: DustCloud where
  "nearCloud = \<lparr>cloud_position = Vector3 3 0 4, cloud_radius = 5\<rparr>"

text \<open>
  The scenario after \<open>initializeGalaxy\<close> has recorded one galaxy with its config: two
  stars, far below the population cap and the birth threshold.
\<close>

definition birthScenario :: NetworkManager where
  "birthScenario = (scenario [])\<lparr>lastGalaxies := [\<lparr>g_config = Some galaxy0\<rparr>]\<rparr>"

section \<open>Properties of the grid\<close>

lemma grid_insert_grid:
  "map_of (grid (insert_grid g p item)) k =
     (if k = getCellKey g (vx p) (vy p) (vz p)
      then Some ((case map_of (grid g) k of Some items \<Rightarrow> items | None \<Rightarrow> []) @ [item])
      else map_of (grid g) k)"
  by (simp add: insert_grid_def Let_def AList.update_conv' split: option.splits)

lemma cellSize_insert_grid [simp]: "cellSize (insert_grid g p item) = cellSize g"
  by (simp add: insert_grid_def Let_def split: option.splits)

lemma getCellKey_insert_grid [simp]:
  "getCellKey (insert_grid g p item) = getCellKey g"
  by (simp add: getCellKey_def fun_eq_iff)

lemma cellSize_insert_all [simp]: "cellSize (insert_all g ps) = cellSize g"
  unfolding insert_all_def by (induction ps arbitrary: g) simp_all


lemma insert_all_snoc:
  "insert_all g (ps @ [e]) = insert_grid (insert_all g ps) (fst e) (snd e)"
  by (simp add: insert_all_def)

text \<open>Membership in the result of a radius query: the item sits in a scanned bucket.\<close>

lemma in_queryRadius_iff:
  "item \<in> set (queryRadius g q r) \<longleftrightarrow>
     (\<exists>k items. map_of (grid g) k = Some items \<and> item \<in> set items \<and>
        \<bar>fst k - fst (getCellKey g (vx q) (vy q) (vz q))\<bar> \<le> \<lceil>r / cellSize g\<rceil> \<and>
        \<bar>fst (snd k) - fst (snd (getCellKey g (vx q) (vy q) (vz q)))\<bar> \<le> \<lceil>r / cellSize g\<rceil> \<and>
        \<bar>snd (snd k) - snd (snd (getCellKey g (vx q) (vy q) (vz q)))\<bar> \<le> \<lceil>r / cellSize g\<rceil>)"
  (is "?L \<longleftrightarrow> ?R")
proof
  assume ?L
  then have "\<exists>dx\<in>{- \<lceil>r / cellSize g\<rceil> .. \<lceil>r / cellSize g\<rceil>}.
      \<exists>dy\<in>{- \<lceil>r / cellSize g\<rceil> .. \<lceil>r / cellSize g\<rceil>}.
      \<exists>dz\<in>{- \<lceil>r / cellSize g\<rceil> .. \<lceil>r / cellSize g\<rceil>}.
        item \<in> set (case map_of (grid g)
          (fst (getCellKey g (vx q) (vy q) (vz q)) + dx,
           fst (snd (getCellKey g (vx q) (vy q) (vz q))) + dy,
           snd (snd (getCellKey g (vx q) (vy q) (vz q))) + dz) of
          Some items \<Rightarrow> items | None \<Rightarrow> [])"
    by (simp add: queryRadius_def Let_def)
  then obtain dx dy dz where d:
      "dx \<in> {- \<lceil>r / cellSize g\<rceil> .. \<lceil>r / cellSize g\<rceil>}"
      "dy \<in> {- \<lceil>r / cellSize g\<rceil> .. \<lceil>r / cellSize g\<rceil>}"
      "dz \<in> {- \<lceil>r / cellSize g\<rceil> .. \<lceil>r / cellSize g\<rceil>}"
    and c: "item \<in> set (case map_of (grid g)
          (fst (getCellKey g (vx q) (vy q) (vz q)) + dx,
           fst (snd (getCellKey g (vx q) (vy q) (vz q))) + dy,
           snd (snd (getCellKey g (vx q) (vy q) (vz q))) + dz) of
          Some items \<Rightarrow> items | None \<Rightarrow> [])"
    by blast
  from c obtain items where m: "map_of (grid g)
        (fst (getCellKey g (vx q) (vy q) (vz q)) + dx,
         fst (snd (getCellKey g (vx q) (vy q) (vz q))) + dy,
         snd (snd (getCellKey g (vx q) (vy q) (vz q))) + dz) = Some items"
    and i: "item \<in> set items"
    by (cases "map_of (grid g)
        (fst (getCellKey g (vx q) (vy q) (vz q)) + dx,
         fst (snd (getCellKey g (vx q) (vy q) (vz q))) + dy,
         snd (snd (getCellKey g (vx q) (vy q) (vz q))) + dz)") auto
  from d m i show ?R
    by (intro exI[of _ "(fst (getCellKey g (vx q) (vy q) (vz q)) + dx,
         fst (snd (getCellKey g (vx q) (vy q) (vz q))) + dy,
         snd (snd (getCellKey g (vx q) (vy q) (vz q))) + dz)"] exI[of _ items]) auto
next
  assume ?R
  then obtain k items where m: "map_of (grid g) k = Some items" and i: "item \<in> set items"
    and b: "\<bar>fst k - fst (getCellKey g (vx q) (vy q) (vz q))\<bar> \<le> \<lceil>r / cellSize g\<rceil>"
      "\<bar>fst (snd k) - fst (snd (getCellKey g (vx q) (vy q) (vz q)))\<bar> \<le> \<lceil>r / cellSize g\<rceil>"
      "\<bar>snd (snd k) - snd (snd (getCellKey g (vx q) (vy q) (vz q)))\<bar> \<le> \<lceil>r / cellSize g\<rceil>"
    by blast
  define dx where "dx = fst k - fst (getCellKey g (vx q) (vy q) (vz q))"
  define dy where "dy = fst (snd k) - fst (snd (getCellKey g (vx q) (vy q) (vz q)))"
  define dz where "dz = snd (snd k) - snd (snd (getCellKey g (vx q) (vy q) (vz q)))"
  have k: "k = (fst (getCellKey g (vx q) (vy q) (vz q)) + dx,
         fst (snd (getCellKey g (vx q) (vy q) (vz q))) + dy,
         snd (snd (getCellKey g (vx q) (vy q) (vz q))) + dz)"
    by (simp add: dx_def dy_def dz_def)
  have r: "dx \<in> {- \<lceil>r / cellSize g\<rceil> .. \<lceil>r / cellSize g\<rceil>}"
      "dy \<in> {- \<lceil>r / cellSize g\<rceil> .. \<lceil>r / cellSize g\<rceil>}"
      "dz \<in> {- \<lceil>r / cellSize g\<rceil> .. \<lceil>r / cellSize g\<rceil>}"
    using b by (auto simp: dx_def dy_def dz_def)
  have "item \<in> set (case map_of (grid g)
          (fst (getCellKey g (vx q) (vy q) (vz q)) + dx,
           fst (snd (getCellKey g (vx q) (vy q) (vz q))) + dy,
           snd (snd (getCellKey g (vx q) (vy q) (vz q))) + dz) of
          Some items \<Rightarrow> items | None \<Rightarrow> [])"
    using m i k by simp
  with r have "\<exists>dx\<in>{- \<lceil>r / cellSize g\<rceil> .. \<lceil>r / cellSize g\<rceil>}.
      \<exists>dy\<in>{- \<lceil>r / cellSize g\<rceil> .. \<lceil>r / cellSize g\<rceil>}.
      \<exists>dz\<in>{- \<lceil>r / cellSize g\<rceil> .. \<lceil>r / cellSize g\<rceil>}.
        item \<in> set (case map_of (grid g)
          (fst (getCellKey g (vx q) (vy q) (vz q)) + dx,
           fst (snd (getCellKey g (vx q) (vy q) (vz q))) + dy,
           snd (snd (getCellKey g (vx q) (vy q) (vz q))) + dz) of
          Some items \<Rightarrow> items | None \<Rightarrow> [])"
    by blast
  then show ?L
    by (simp add: queryRadius_def Let_def)
qed





lemma floor_cell_close:
  fixes a b r c :: real
  assumes c: "0 < c" and d: "\<bar>a - b\<bar> \<le> r"
  shows "\<bar>\<lfloor>a / c\<rfloor> - \<lfloor>b / c\<rfloor>\<bar> \<le> \<lceil>r / c\<rceil>"
proof -
  have rc: "r / c \<le> of_int \<lceil>r / c\<rceil>" by (rule le_of_int_ceiling)
  have "a / c - b / c \<le> r / c" "b / c - a / c \<le> r / c"
    using c d by (simp_all add: diff_divide_distrib[symmetric] divide_right_mono abs_le_iff)
  then have 1: "a / c \<le> b / c + of_int \<lceil>r / c\<rceil>" and 2: "b / c \<le> a / c + of_int \<lceil>r / c\<rceil>"
    using rc by linarith+
  have "\<lfloor>a / c\<rfloor> \<le> \<lfloor>b / c + of_int \<lceil>r / c\<rceil>\<rfloor>" using 1 by (rule floor_mono)
  moreover have "\<lfloor>b / c\<rfloor> \<le> \<lfloor>a / c + of_int \<lceil>r / c\<rceil>\<rfloor>" using 2 by (rule floor_mono)
  ultimately show ?thesis by (simp add: abs_le_iff)
qed

lemma coord_le_distanceTo:
  "\<bar>vx p - vx q\<bar> \<le> distanceTo p q"
  "\<bar>vy p - vy q\<bar> \<le> distanceTo p q"
  "\<bar>vz p - vz q\<bar> \<le> distanceTo p q"
  unfolding distanceTo_def Let_def
  by (rule real_le_rsqrt, simp add: power2_eq_square)+

lemma distanceTo_nonneg: "0 \<le> distanceTo p q"
  by (simp add: distanceTo_def Let_def)



lemma size_grid_sum: "size_grid g = sum_list (map (\<lambda>e. length (snd e)) (grid g))"
proof -
  have "\<And>n. foldl (\<lambda>count items. count + length items) n xs = n + sum_list (map length xs)" for xs :: "'a list list"
    by (induction xs) simp_all
  then show ?thesis by (simp add: size_grid_def comp_def)
qed

lemma sum_update_absent:
  "map_of al k = None \<Longrightarrow>
   sum_list (map (\<lambda>e. length (snd e)) (AList.update k v al)) =
   sum_list (map (\<lambda>e. length (snd e)) al) + length v"
  by (induction al) (auto split: if_splits)

lemma sum_update_present:
  "map_of al k = Some old \<Longrightarrow>
   sum_list (map (\<lambda>e. length (snd e)) (AList.update k (old @ [x]) al)) =
   sum_list (map (\<lambda>e. length (snd e)) al) + 1"
  by (induction al) (auto split: if_splits)

lemma size_insert_grid: "size_grid (insert_grid g p item) = size_grid g + 1"
proof (cases "map_of (grid g) (getCellKey g (vx p) (vy p) (vz p))")
  case None
  then show ?thesis
    by (simp add: size_grid_sum insert_grid_def Let_def AList.update_conv'
        sum_update_absent sum_update_present)
next
  case (Some old)
  then show ?thesis
    by (simp add: size_grid_sum insert_grid_def Let_def sum_update_present)
qed

lemma query_insert_grid: "item \<in> set (query (insert_grid g p item) p)"
  by (simp add: query_def grid_insert_grid)

lemma query_same:
  "cellSize g = cellSize h \<Longrightarrow> grid g = grid h \<Longrightarrow> query g p = query h p"
  unfolding query_def getCellKey_def by simp

lemma queryRadius_same:
  "cellSize g = cellSize h \<Longrightarrow> grid g = grid h \<Longrightarrow> queryRadius g p r = queryRadius h p r"
  unfolding queryRadius_def getCellKey_def by simp

lemma size_grid_same: "grid g = grid h \<Longrightarrow> size_grid g = size_grid h"
  unfolding size_grid_def by simp

lemma grid_insert_same:
  assumes "cellSize g = cellSize h" "grid g = grid h"
  shows "grid (insert_grid g p item) = grid (insert_grid h p item)"
proof -
  have k: "getCellKey g (vx p) (vy p) (vz p) = getCellKey h (vx p) (vy p) (vz p)"
    using assms(1) by (simp add: getCellKey_def)
  show ?thesis
    unfolding insert_grid_def Let_def k assms(2)
    by (cases "map_of (if map_of (grid h) (getCellKey h (vx p) (vy p) (vz p)) = None
           then AList.update (getCellKey h (vx p) (vy p) (vz p)) [] (grid h) else grid h)
           (getCellKey h (vx p) (vy p) (vz p))") simp_all
qed

lemma grid_step_same:
  assumes "cellSize g = cellSize h" "grid g = grid h"
  shows "fst (grid_step g c) = fst (grid_step h c) \<and>
         cellSize (snd (grid_step g c)) = cellSize (snd (grid_step h c)) \<and>
         grid (snd (grid_step g c)) = grid (snd (grid_step h c))"
proof (cases c)
  case (Insert p item)
  then show ?thesis using assms grid_insert_same[OF assms] by simp
next
  case (Query p)
  then show ?thesis using assms query_same[OF assms] by simp
next
  case (QueryRadius p r)
  then show ?thesis using assms queryRadius_same[OF assms] by simp
next
  case Clear
  then show ?thesis using assms by (simp add: clear_grid_def)
next
  case Size
  then show ?thesis using assms size_grid_same[OF assms(2)] by simp
qed

lemma grid_run_same:
  "cellSize g = cellSize h \<Longrightarrow> grid g = grid h \<Longrightarrow> grid_run g cs = grid_run h cs"
proof (induction cs arbitrary: g h)
  case Nil
  then show ?case by simp
next
  case (Cons c cs)
  from grid_step_same[OF Cons.prems, of c]
  have f: "fst (grid_step g c) = fst (grid_step h c)"
    and c: "cellSize (snd (grid_step g c)) = cellSize (snd (grid_step h c))"
    and g: "grid (snd (grid_step g c)) = grid (snd (grid_step h c))"
    by blast+
  from Cons.IH[OF c g] f show ?case by simp
qed

text \<open>
  Claim C10. The bounds given to the constructor have no effect. Two grids constructed
  with the same cell size and any two choices of bounds return the same results on every
  sequence of \<open>insert\<close>, \<open>query\<close>, \<open>queryRadius\<close>, \<open>clear\<close> and \<open>size\<close> calls.
  An insertion at any position, inside the bounds or not, is never rejected or clamped: the
  item is stored, it is counted by \<open>size\<close>, and a query at the same position returns it.
\<close>

theorem bounds_have_no_effect:
  "grid_run (SpatialGrid_new cs lo hi) calls = grid_run (SpatialGrid_new cs lo' hi') calls \<and>
   size_grid (insert_grid (SpatialGrid_new cs lo hi) p item) = 1 \<and>
   query (insert_grid (SpatialGrid_new cs lo hi) p item) p = [item]"
proof -
  have "grid_run (SpatialGrid_new cs lo hi) calls = grid_run (SpatialGrid_new cs lo' hi') calls"
    by (rule grid_run_same) (simp_all add: SpatialGrid_new_def)
  moreover have "size_grid (insert_grid (SpatialGrid_new cs lo hi) p item) = 1"
    by (simp add: size_insert_grid) (simp add: size_grid_def SpatialGrid_new_def)
  moreover have "query (insert_grid (SpatialGrid_new cs lo hi) p item) p = [item]"
    by (simp add: query_def grid_insert_grid SpatialGrid_new_def)
  ultimately show ?thesis by blast
qed

section \<open>The radius query with the division of the machine\<close>

lemma grid_insert_binary64:
  "map_of (grid (insert_binary64 g p item)) k =
     (if k = getCellKey_binary64 g (vx p) (vy p) (vz p)
      then Some ((case map_of (grid g) k of Some items \<Rightarrow> items | None \<Rightarrow> []) @ [item])
      else map_of (grid g) k)"
  by (simp add: insert_binary64_def Let_def AList.update_conv' split: option.splits)

lemma cellSize_insert_binary64 [simp]: "cellSize (insert_binary64 g p item) = cellSize g"
  by (simp add: insert_binary64_def Let_def split: option.splits)

lemma getCellKey_insert_binary64 [simp]:
  "getCellKey_binary64 (insert_binary64 g p item) = getCellKey_binary64 g"
  by (simp add: getCellKey_binary64_def fun_eq_iff)

lemma cellSize_insert_all_binary64 [simp]: "cellSize (insert_all_binary64 g ps) = cellSize g"
  unfolding insert_all_binary64_def by (induction ps arbitrary: g) simp_all

lemma insert_all_binary64_Cons:
  "insert_all_binary64 g (e # ps) = insert_all_binary64 (insert_binary64 g (fst e) (snd e)) ps"
  by (simp add: insert_all_binary64_def)

text \<open>The three nested loops visit exactly the cells within the cell radius on each axis.\<close>

lemma in_scanned_cells_iff:
  "item \<in> set (concat (map (\<lambda>dx.
           concat (map (\<lambda>dy.
             concat (map (\<lambda>dz.
               (case map_of al (cx + dx, cy + dy, cz + dz) of
                  Some items \<Rightarrow> items
                | None \<Rightarrow> []))
               [- R .. R]))
             [- R .. R]))
           [- R .. R])) \<longleftrightarrow>
     (\<exists>k items. map_of al k = Some items \<and> item \<in> set items \<and>
        \<bar>fst k - cx\<bar> \<le> R \<and> \<bar>fst (snd k) - cy\<bar> \<le> R \<and> \<bar>snd (snd k) - cz\<bar> \<le> (R :: int))"
  (is "?L \<longleftrightarrow> ?R")
proof
  assume ?L
  then have "\<exists>dx\<in>{- R .. R}. \<exists>dy\<in>{- R .. R}. \<exists>dz\<in>{- R .. R}.
        item \<in> set (case map_of al (cx + dx, cy + dy, cz + dz) of
          Some items \<Rightarrow> items | None \<Rightarrow> [])"
    by simp
  then obtain dx dy dz where d: "dx \<in> {- R .. R}" "dy \<in> {- R .. R}" "dz \<in> {- R .. R}"
    and c: "item \<in> set (case map_of al (cx + dx, cy + dy, cz + dz) of
          Some items \<Rightarrow> items | None \<Rightarrow> [])"
    by blast
  from c obtain items where m: "map_of al (cx + dx, cy + dy, cz + dz) = Some items"
    and i: "item \<in> set items"
    by (cases "map_of al (cx + dx, cy + dy, cz + dz)") auto
  from d m i show ?R
    by (intro exI[of _ "(cx + dx, cy + dy, cz + dz)"] exI[of _ items]) auto
next
  assume ?R
  then obtain k items where m: "map_of al k = Some items" and i: "item \<in> set items"
    and b: "\<bar>fst k - cx\<bar> \<le> R" "\<bar>fst (snd k) - cy\<bar> \<le> R" "\<bar>snd (snd k) - cz\<bar> \<le> R"
    by blast
  define dx where "dx = fst k - cx"
  define dy where "dy = fst (snd k) - cy"
  define dz where "dz = snd (snd k) - cz"
  have k: "k = (cx + dx, cy + dy, cz + dz)"
    by (simp add: dx_def dy_def dz_def)
  have r: "dx \<in> {- R .. R}" "dy \<in> {- R .. R}" "dz \<in> {- R .. R}"
    using b by (auto simp: dx_def dy_def dz_def)
  have "item \<in> set (case map_of al (cx + dx, cy + dy, cz + dz) of
          Some items \<Rightarrow> items | None \<Rightarrow> [])"
    using m i k by simp
  with r have "\<exists>dx\<in>{- R .. R}. \<exists>dy\<in>{- R .. R}. \<exists>dz\<in>{- R .. R}.
        item \<in> set (case map_of al (cx + dx, cy + dy, cz + dz) of
          Some items \<Rightarrow> items | None \<Rightarrow> [])"
    by blast
  then show ?L by simp
qed

lemma in_queryRadius_binary64_iff:
  "item \<in> set (queryRadius_binary64 g q r) \<longleftrightarrow>
     (\<exists>k items. map_of (grid g) k = Some items \<and> item \<in> set items \<and>
        \<bar>fst k - \<lfloor>divide_binary64 (vx q) (cellSize g)\<rfloor>\<bar> \<le> \<lceil>divide_binary64 r (cellSize g)\<rceil> \<and>
        \<bar>fst (snd k) - \<lfloor>divide_binary64 (vy q) (cellSize g)\<rfloor>\<bar> \<le> \<lceil>divide_binary64 r (cellSize g)\<rceil> \<and>
        \<bar>snd (snd k) - \<lfloor>divide_binary64 (vz q) (cellSize g)\<rfloor>\<bar> \<le> \<lceil>divide_binary64 r (cellSize g)\<rceil>)"
  unfolding queryRadius_binary64_def getCellKey_binary64_def Let_def fst_conv snd_conv
  by (rule in_scanned_cells_iff)

lemma insert_all_binary64_keeps:
  "map_of (grid g) k = Some items \<Longrightarrow> item \<in> set items \<Longrightarrow>
   \<exists>items'. map_of (grid (insert_all_binary64 g ps)) k = Some items' \<and> item \<in> set items'"
proof (induction ps arbitrary: g items)
  case Nil
  then show ?case by (simp add: insert_all_binary64_def)
next
  case (Cons e ps)
  from Cons.prems
  have "\<exists>items'. map_of (grid (insert_binary64 g (fst e) (snd e))) k = Some items' \<and>
      item \<in> set items'"
    by (auto simp: grid_insert_binary64)
  then obtain items' where "map_of (grid (insert_binary64 g (fst e) (snd e))) k = Some items'"
    "item \<in> set items'" by blast
  from Cons.IH[OF this] show ?case by (simp add: insert_all_binary64_Cons)
qed

lemma insert_all_binary64_bucket:
  "(p, item) \<in> set ps \<Longrightarrow>
   \<exists>items. map_of (grid (insert_all_binary64 g ps)) (getCellKey_binary64 g (vx p) (vy p) (vz p))
       = Some items \<and> item \<in> set items"
proof (induction ps arbitrary: g)
  case Nil
  then show ?case by simp
next
  case (Cons e ps)
  show ?case
  proof (cases "e = (p, item)")
    case True
    have "\<exists>items. map_of (grid (insert_binary64 g p item))
        (getCellKey_binary64 g (vx p) (vy p) (vz p)) = Some items \<and> item \<in> set items"
      by (simp add: grid_insert_binary64)
    then obtain items where
      "map_of (grid (insert_binary64 g p item)) (getCellKey_binary64 g (vx p) (vy p) (vz p))
         = Some items"
      "item \<in> set items" by blast
    from insert_all_binary64_keeps[OF this, of ps] show ?thesis
      using True by (simp add: insert_all_binary64_Cons)
  next
    case False
    with Cons.prems have "(p, item) \<in> set ps" by simp
    from Cons.IH[OF this, of "insert_binary64 g (fst e) (snd e)"] show ?thesis
      by (simp add: insert_all_binary64_Cons)
  qed
qed

subsection \<open>Evaluating the rounded division\<close>

lemma binaryExponent_numeral:
  "binaryExponent (numeral k) x =
     (if 2 \<le> x then binaryExponent (pred_numeral k) (x / 2) + 1
      else if x < 1 then binaryExponent (pred_numeral k) (x * 2) - 1
      else 0)"
  by (simp add: numeral_eq_Suc)

lemma roundToDouble_positive:
  assumes "0 < x" and "binaryExponent 1100 x = e" and "roundHalfEven (x / pow2 (e - 52)) = n"
  shows "roundToDouble x = of_int n * pow2 (e - 52)"
  using assms by (simp add: roundToDouble_def Let_def)

lemma roundToDouble_zero [simp]: "roundToDouble 0 = 0"
  by (simp add: roundToDouble_def)

lemma divide_binary64_zero [simp]: "divide_binary64 0 c = 0"
  by (simp add: divide_binary64_def)

text \<open>The doubles that the literals \<open>0.1\<close>, \<open>0.2\<close> and \<open>0.3\<close> denote.\<close>

lemma double_tenth: "roundToDouble (1 / 10) = 3602879701896397 / 36028797018963968"
proof -
  have e: "binaryExponent 1100 (1 / 10) = - 4" by (simp add: binaryExponent_numeral)
  have n: "roundHalfEven ((1 / 10) / pow2 (- 4 - 52)) = 7205759403792794"
    by (simp add: pow2_def roundHalfEven_def Let_def)
  from roundToDouble_positive[OF _ e n] show ?thesis by (simp add: pow2_def)
qed

lemma double_two_tenths: "roundToDouble (2 / 10) = 3602879701896397 / 18014398509481984"
proof -
  have e: "binaryExponent 1100 (2 / 10) = - 3" by (simp add: binaryExponent_numeral)
  have n: "roundHalfEven ((2 / 10) / pow2 (- 3 - 52)) = 7205759403792794"
    by (simp add: pow2_def roundHalfEven_def Let_def)
  from roundToDouble_positive[OF _ e n] show ?thesis by (simp add: pow2_def)
qed

lemma double_three_tenths: "roundToDouble (3 / 10) = 5404319552844595 / 18014398509481984"
proof -
  have e: "binaryExponent 1100 (3 / 10) = - 2" by (simp add: binaryExponent_numeral)
  have n: "roundHalfEven ((3 / 10) / pow2 (- 2 - 52)) = 5404319552844595"
    by (simp add: pow2_def roundHalfEven_def Let_def)
  from roundToDouble_positive[OF _ e n] show ?thesis by (simp add: pow2_def)
qed

text \<open>
  The quotient of the doubles \<open>0.5\<close> and \<open>0.1\<close> lies below 5, by less than half a unit
  in the last place, and is rounded to 5. The quotient of \<open>0.3\<close> and \<open>0.1\<close> is rounded to
  a number below 3, and the quotient of \<open>0.2\<close> and \<open>0.1\<close> is 2.
\<close>

lemma half_by_tenth:
  "(1 / 2) / (3602879701896397 / 36028797018963968 :: real) < 5"
  "divide_binary64 (1 / 2) (3602879701896397 / 36028797018963968) = 5"
proof -
  let ?x = "(1 / 2) / (3602879701896397 / 36028797018963968 :: real)"
  show "?x < 5" by simp
  have e: "binaryExponent 1100 ?x = 2" by (simp add: binaryExponent_numeral)
  have n: "roundHalfEven (?x / pow2 (2 - 52)) = 5629499534213120"
    by (simp add: pow2_def roundHalfEven_def Let_def)
  from roundToDouble_positive[OF _ e n] show "divide_binary64 (1 / 2) (3602879701896397 / 36028797018963968) = 5"
    by (simp add: pow2_def divide_binary64_def)
qed

lemma three_tenths_by_tenth:
  "\<lfloor>divide_binary64 (5404319552844595 / 18014398509481984)
      (3602879701896397 / 36028797018963968)\<rfloor> = 2"
proof -
  let ?x = "(5404319552844595 / 18014398509481984) / (3602879701896397 / 36028797018963968 :: real)"
  have e: "binaryExponent 1100 ?x = 1" by (simp add: binaryExponent_numeral)
  have n: "roundHalfEven (?x / pow2 (1 - 52)) = 6755399441055743"
    by (simp add: pow2_def roundHalfEven_def Let_def)
  have v: "roundToDouble ?x = of_int 6755399441055743 * pow2 (1 - 52)"
    by (rule roundToDouble_positive[OF _ e n]) simp
  show ?thesis unfolding divide_binary64_def v by (simp add: pow2_def)
qed

lemma two_tenths_by_tenth:
  "divide_binary64 (3602879701896397 / 18014398509481984)
      (3602879701896397 / 36028797018963968) = 2"
proof -
  let ?x = "(3602879701896397 / 18014398509481984) / (3602879701896397 / 36028797018963968 :: real)"
  have e: "binaryExponent 1100 ?x = 1" by (simp add: binaryExponent_numeral)
  have n: "roundHalfEven (?x / pow2 (1 - 52)) = 4503599627370496"
    by (simp add: pow2_def roundHalfEven_def Let_def)
  have v: "roundToDouble ?x = of_int 4503599627370496 * pow2 (1 - 52)"
    by (rule roundToDouble_positive[OF _ e n]) simp
  show ?thesis unfolding divide_binary64_def v by (simp add: pow2_def)
qed

lemma quotients_by_ten:
  "\<lfloor>divide_binary64 12 10\<rfloor> = 1"
  "\<lfloor>divide_binary64 9 10\<rfloor> = 0"
  "\<lfloor>divide_binary64 4 10\<rfloor> = 0"
  "\<lceil>divide_binary64 5 10\<rceil> = 1"
proof -
  have e: "binaryExponent 1100 (12 / 10) = 0" "binaryExponent 1100 (9 / 10) = - 1"
    "binaryExponent 1100 (4 / 10) = - 2" "binaryExponent 1100 (5 / 10) = - 1"
    by (simp_all add: binaryExponent_numeral)
  have n: "roundHalfEven ((12 / 10) / pow2 (0 - 52)) = 5404319552844595"
    "roundHalfEven ((9 / 10) / pow2 (- 1 - 52)) = 8106479329266893"
    "roundHalfEven ((4 / 10) / pow2 (- 2 - 52)) = 7205759403792794"
    "roundHalfEven ((5 / 10) / pow2 (- 1 - 52)) = 4503599627370496"
    by (simp_all add: pow2_def roundHalfEven_def Let_def)
  have v: "roundToDouble (12 / 10) = of_int 5404319552844595 * pow2 (0 - 52)"
    "roundToDouble (9 / 10) = of_int 8106479329266893 * pow2 (- 1 - 52)"
    "roundToDouble (4 / 10) = of_int 7205759403792794 * pow2 (- 2 - 52)"
    "roundToDouble (5 / 10) = of_int 4503599627370496 * pow2 (- 1 - 52)"
    by (rule roundToDouble_positive[OF _ e(1) n(1)], simp,
        rule roundToDouble_positive[OF _ e(2) n(2)], simp,
        rule roundToDouble_positive[OF _ e(3) n(3)], simp,
        rule roundToDouble_positive[OF _ e(4) n(4)], simp)
  show "\<lfloor>divide_binary64 12 10\<rfloor> = 1" unfolding divide_binary64_def v by (simp add: pow2_def)
  show "\<lfloor>divide_binary64 9 10\<rfloor> = 0" unfolding divide_binary64_def v by (simp add: pow2_def)
  show "\<lfloor>divide_binary64 4 10\<rfloor> = 0" unfolding divide_binary64_def v by (simp add: pow2_def)
  show "\<lceil>divide_binary64 5 10\<rceil> = 1" unfolding divide_binary64_def v
    by (simp add: pow2_def ceiling_eq_iff)
qed

subsection \<open>No false negatives\<close>

lemma distanceTo_along_x: "distanceTo (Vector3 a 0 0) (Vector3 b 0 0) = \<bar>a - b\<bar>"
  by (simp add: distanceTo_def)

text \<open>
  Claim C1, as the code has it. Take a grid with a positive cell size, in any state, and
  insert a list of (position, item) pairs. For every query position and radius, the radius
  query returns every inserted item whose true distance from the query position is at most
  the radius, provided that the machine puts the coordinates of the item and of the query
  position in the cells in which their exact quotients by the cell size lie, and that the
  cell radius of the machine, the ceiling of the rounded quotient of radius and cell size,
  is not below the ceiling of the exact quotient. Items further away may be returned too.
\<close>

theorem queryRadius_no_false_negatives:
  assumes "0 < cellSize g" and "(p, item) \<in> set ps" and "distanceTo p q \<le> radius"
    and "sameCells g p" and "sameCells g q"
    and "\<lceil>radius / cellSize g\<rceil> \<le> \<lceil>divide_binary64 radius (cellSize g)\<rceil>"
  shows "item \<in> set (queryRadius_binary64 (insert_all_binary64 g ps) q radius)"
proof -
  from insert_all_binary64_bucket[OF assms(2), of g] obtain items where
    m: "map_of (grid (insert_all_binary64 g ps)) (getCellKey_binary64 g (vx p) (vy p) (vz p))
          = Some items"
    and i: "item \<in> set items" by blast
  have "\<bar>vx p - vx q\<bar> \<le> radius" "\<bar>vy p - vy q\<bar> \<le> radius" "\<bar>vz p - vz q\<bar> \<le> radius"
    using coord_le_distanceTo[of p q] assms(3) by linarith+
  then have "\<bar>\<lfloor>vx p / cellSize g\<rfloor> - \<lfloor>vx q / cellSize g\<rfloor>\<bar> \<le> \<lceil>radius / cellSize g\<rceil>"
    "\<bar>\<lfloor>vy p / cellSize g\<rfloor> - \<lfloor>vy q / cellSize g\<rfloor>\<bar> \<le> \<lceil>radius / cellSize g\<rceil>"
    "\<bar>\<lfloor>vz p / cellSize g\<rfloor> - \<lfloor>vz q / cellSize g\<rfloor>\<bar> \<le> \<lceil>radius / cellSize g\<rceil>"
    using floor_cell_close[OF assms(1)] by blast+
  with assms(4,5,6)
  have c: "\<bar>\<lfloor>divide_binary64 (vx p) (cellSize g)\<rfloor> - \<lfloor>divide_binary64 (vx q) (cellSize g)\<rfloor>\<bar>
        \<le> \<lceil>divide_binary64 radius (cellSize g)\<rceil>"
    "\<bar>\<lfloor>divide_binary64 (vy p) (cellSize g)\<rfloor> - \<lfloor>divide_binary64 (vy q) (cellSize g)\<rfloor>\<bar>
        \<le> \<lceil>divide_binary64 radius (cellSize g)\<rceil>"
    "\<bar>\<lfloor>divide_binary64 (vz p) (cellSize g)\<rfloor> - \<lfloor>divide_binary64 (vz q) (cellSize g)\<rfloor>\<bar>
        \<le> \<lceil>divide_binary64 radius (cellSize g)\<rceil>"
    unfolding sameCells_def sameCell_def by linarith+
  show ?thesis
    unfolding in_queryRadius_binary64_iff
    apply (intro exI[of _ "getCellKey_binary64 g (vx p) (vy p) (vz p)"] exI[of _ items])
    using m i c by (simp add: getCellKey_binary64_def)
qed

theorem queryRadius_no_false_negatives_witness:
  "0 < cellSize (SpatialGrid_new 10 (Vector3 0 0 0) (Vector3 1 1 1) :: nat SpatialGrid) \<and>
   (Vector3 12 0 0, 7) \<in> set [(Vector3 12 0 0, 7::nat)] \<and>
   distanceTo (Vector3 12 0 0) (Vector3 9 4 0) \<le> 5 \<and>
   sameCells (SpatialGrid_new 10 (Vector3 0 0 0) (Vector3 1 1 1) :: nat SpatialGrid)
     (Vector3 12 0 0) \<and>
   sameCells (SpatialGrid_new 10 (Vector3 0 0 0) (Vector3 1 1 1) :: nat SpatialGrid)
     (Vector3 9 4 0) \<and>
   \<lceil>5 / cellSize (SpatialGrid_new 10 (Vector3 0 0 0) (Vector3 1 1 1) :: nat SpatialGrid)\<rceil>
     \<le> \<lceil>divide_binary64 5
          (cellSize (SpatialGrid_new 10 (Vector3 0 0 0) (Vector3 1 1 1) :: nat SpatialGrid))\<rceil> \<and>
   7 \<in> set (queryRadius_binary64
     (insert_all_binary64 (SpatialGrid_new 10 (Vector3 0 0 0) (Vector3 1 1 1))
        [(Vector3 12 0 0, 7::nat)])
     (Vector3 9 4 0) 5)"
proof -
  let ?g = "SpatialGrid_new 10 (Vector3 0 0 0) (Vector3 1 1 1) :: nat SpatialGrid"
  have c: "0 < cellSize ?g" by (simp add: SpatialGrid_new_def)
  have i: "(Vector3 12 0 0, 7) \<in> set [(Vector3 12 0 0, 7::nat)]" by simp
  have "sqrt 25 = 5" using real_sqrt_abs[of 5] by simp
  then have d: "distanceTo (Vector3 12 0 0) (Vector3 9 4 0) \<le> 5"
    by (simp add: distanceTo_def)
  have sp: "sameCells ?g (Vector3 12 0 0)"
    by (simp add: sameCells_def sameCell_def SpatialGrid_new_def quotients_by_ten)
  have sq: "sameCells ?g (Vector3 9 4 0)"
    by (simp add: sameCells_def sameCell_def SpatialGrid_new_def quotients_by_ten)
  have r: "\<lceil>5 / cellSize ?g\<rceil> \<le> \<lceil>divide_binary64 5 (cellSize ?g)\<rceil>"
    by (simp add: SpatialGrid_new_def quotients_by_ten ceiling_le_iff)
  from queryRadius_no_false_negatives[OF c i d sp sq r] c i d sp sq r show ?thesis by blast
qed

text \<open>
  Without the proviso the claim fails. Take the cell size \<open>0.1\<close>, an item at \<open>x = 0.5\<close>, and
  a query at \<open>x = 0.3\<close> with radius \<open>0.2\<close>. The distance of the two positions is the
  radius: the doubles \<open>0.3\<close> and \<open>0.2\<close> add up to one half. The exact quotient of \<open>0.5\<close>
  and the cell size lies in cell 4, the machine rounds it to 5 and files the item in cell
  5; the query is in cell 2 with cell radius 2 and scans the cells 0 to 4.
\<close>

theorem queryRadius_false_negative_counterexample:
  "0 < cellSize (SpatialGrid_new (roundToDouble (1 / 10)) (Vector3 0 0 0) (Vector3 1 1 1)
        :: nat SpatialGrid) \<and>
   0 \<le> roundToDouble (2 / 10) \<and>
   (Vector3 (1 / 2) 0 0, 7) \<in> set [(Vector3 (1 / 2) 0 0, 7::nat)] \<and>
   distanceTo (Vector3 (1 / 2) 0 0) (Vector3 (roundToDouble (3 / 10)) 0 0)
     \<le> roundToDouble (2 / 10) \<and>
   7 \<notin> set (queryRadius_binary64
     (insert_all_binary64
        (SpatialGrid_new (roundToDouble (1 / 10)) (Vector3 0 0 0) (Vector3 1 1 1))
        [(Vector3 (1 / 2) 0 0, 7::nat)])
     (Vector3 (roundToDouble (3 / 10)) 0 0) (roundToDouble (2 / 10)))"
proof -
  let ?g = "SpatialGrid_new (3602879701896397 / 36028797018963968) (Vector3 0 0 0) (Vector3 1 1 1)
      :: nat SpatialGrid"
  let ?q = "Vector3 (5404319552844595 / 18014398509481984) 0 0"
  let ?r = "3602879701896397 / 18014398509481984 :: real"
  have c: "0 < cellSize ?g" by (simp add: SpatialGrid_new_def)
  have d: "distanceTo (Vector3 (1 / 2) 0 0) ?q \<le> ?r"
    unfolding distanceTo_along_x by simp
  have cs: "cellSize ?g = 3602879701896397 / 36028797018963968" and gr: "grid ?g = []"
    by (simp_all add: SpatialGrid_new_def)
  have k: "getCellKey_binary64 ?g (1 / 2) 0 0 = (5, 0, 0)"
    by (simp add: getCellKey_binary64_def cs half_by_tenth)
  have "7 \<notin> set (queryRadius_binary64 (insert_binary64 ?g (Vector3 (1 / 2) 0 0) 7) ?q ?r)"
    unfolding in_queryRadius_binary64_iff grid_insert_binary64
    by (auto simp: k cs gr three_tenths_by_tenth two_tenths_by_tenth)
  then have "7 \<notin> set (queryRadius_binary64
      (insert_all_binary64 ?g [(Vector3 (1 / 2) 0 0, 7)]) ?q ?r)"
    by (simp add: insert_all_binary64_def)
  with c d show ?thesis
    unfolding double_tenth double_two_tenths double_three_tenths by simp
qed

section \<open>Properties of a star\<close>

lemma agingFade_fields [simp]:
  "isActive (agingFade st s) = isActive s"
  "activationTime (agingFade st s) = activationTime s"
  "hasDormantPlanet (agingFade st s) = hasDormantPlanet s"
  "canSupportLife (agingFade st s) = canSupportLife s"
  by (simp_all add: agingFade_def Let_def)

lemma emissionTick_fields [simp]:
  "isActive (emissionTick st dt s) = isActive s"
  "activationTime (emissionTick st dt s) = activationTime s"
  "hasDormantPlanet (emissionTick st dt s) = hasDormantPlanet s"
  by (simp_all add: emissionTick_def Let_def)

lemma activate_fields [simp]:
  "isActive (fst (activate st env s)) = True"
  "activationTime (fst (activate st env s)) = Some (fst (Date_now env) / 1000)"
  "hasDormantPlanet (fst (activate st env s)) = hasDormantPlanet s"
  by (simp_all add: activate_def addLight_def Let_def split_beta split: option.splits)

lemma deactivate_fields [simp]:
  "isActive (deactivate s) = False"
  "activationTime (deactivate s) = None"
  "hasDormantPlanet (deactivate s) = True"
  by (simp_all add: deactivate_def removeLight_def Let_def)

lemma Star_update_cases:
  "fst (Star_update st dt env s) =
    (let s1 = s\<lparr>age := age s + dt\<rparr> in
     if supernovaCheck s1 \<and> fst (Math_random env) < activationChance st
     then s1\<lparr>isGoingSupernova := True\<rparr>
     else let env1 = (if supernovaCheck s1 then snd (Math_random env) else env);
              s2 = agingFade st s1 in
       if \<not> isActive s \<and> \<not> hasDormantPlanet s \<and> canSupportLife s
       then (if distanceFromCenter s2 \<ge> minDistanceFromCenter st \<and>
                fst (Math_random env1) < activationChance st * dt
             then fst (activate st (snd (Math_random env1)) s2) else s2)
       else if isActive s
       then emissionTick st dt
              (if fst (Math_random env1) < deactivationChance st * dt then deactivate s2 else s2)
       else s2)"
  by (simp add: Star_update_def Let_def split_beta)

lemma activate_not_None [simp]: "activationTime (fst (activate st env s)) \<noteq> None"
  by simp

lemma Star_update_transition:
  "(isActive (fst (Star_update st dt env s)) = isActive s \<and>
    activationTime (fst (Star_update st dt env s)) = activationTime s \<and>
    hasDormantPlanet (fst (Star_update st dt env s)) = hasDormantPlanet s) \<or>
   (\<not> isActive s \<and> \<not> hasDormantPlanet s \<and>
    isActive (fst (Star_update st dt env s)) \<and>
    activationTime (fst (Star_update st dt env s)) \<noteq> None \<and>
    \<not> hasDormantPlanet (fst (Star_update st dt env s))) \<or>
   (isActive s \<and>
    \<not> isActive (fst (Star_update st dt env s)) \<and>
    activationTime (fst (Star_update st dt env s)) = None \<and>
    hasDormantPlanet (fst (Star_update st dt env s)))"
  unfolding Star_update_cases Let_def
  by (simp del: activate_fields(2) not_None_eq)

lemma Star_update_inv: "star_inv s \<Longrightarrow> star_inv (fst (Star_update st dt env s))"
  using Star_update_transition[of st dt env s] unfolding star_inv_def by auto

lemma Star_update_dormant:
  "star_inv s \<Longrightarrow> hasDormantPlanet s \<Longrightarrow> hasDormantPlanet (fst (Star_update st dt env s))"
  using Star_update_transition[of st dt env s] unfolding star_inv_def by auto

lemma Star_updates_inv: "star_inv s \<Longrightarrow> star_inv (Star_updates st s cs)"
  by (induction cs arbitrary: s) (simp_all add: Star_update_inv)

lemma Star_updates_dormant:
  "star_inv s \<Longrightarrow> hasDormantPlanet s \<Longrightarrow> hasDormantPlanet (Star_updates st s cs)"
  by (induction cs arbitrary: s) (simp_all add: Star_update_inv Star_update_dormant)

lemma Star_new_inv: "star_inv (fst (Star_new st pos center profile env))"
  by (simp add: Star_new_def star_inv_def Let_def split_beta)

text \<open>
  Claim C7. Take a star as its constructor leaves it and apply any sequence of \<open>update\<close>
  calls, with any elapsed times, random draws and clock readings. After every call the
  star has an activation time exactly when it is active. If after some call the star has
  gone dormant (\<open>hasDormantPlanet\<close>), then it is not active after any further sequence
  of calls: a star has at most one active epoch.
\<close>

theorem star_one_active_epoch:
  "(activationTime (Star_updates st (fst (Star_new st pos center profile env)) cs) \<noteq> None
      \<longleftrightarrow> isActive (Star_updates st (fst (Star_new st pos center profile env)) cs)) \<and>
   (hasDormantPlanet (Star_updates st (fst (Star_new st pos center profile env)) cs) \<longrightarrow>
      \<not> isActive (Star_updates st (Star_updates st (fst (Star_new st pos center profile env)) cs) cs'))"
proof -
  let ?s0 = "fst (Star_new st pos center profile env)"
  let ?s1 = "Star_updates st ?s0 cs"
  have i1: "star_inv ?s1" by (rule Star_updates_inv[OF Star_new_inv])
  have i2: "star_inv (Star_updates st ?s1 cs')" by (rule Star_updates_inv[OF i1])
  have "hasDormantPlanet ?s1 \<Longrightarrow> hasDormantPlanet (Star_updates st ?s1 cs')"
    by (rule Star_updates_dormant[OF i1])
  with i1 i2 show ?thesis unfolding star_inv_def by blast
qed


lemma Math_random_constEnv [simp]: "Math_random (constEnv u t) = (u, constEnv u t)"
  by (simp add: Math_random_def constEnv_def)

lemma Date_now_constEnv [simp]: "Date_now (constEnv u t) = (t, constEnv u t)"
  by (simp add: Date_now_def constEnv_def)

lemma sample_star:
  "fst (Star_new defaultSettings (Vector3 100 0 0) (Vector3 0 0 0) MiddleAged (constEnv 0.9 0)) =
   \<lparr>position = Vector3 100 0 0, galaxyCenter = Vector3 0 0 0, age = 0, lifetime = 168,
     hasDormantPlanet = False, isActive = False, activationTime = None,
     emissionTimer = 9, emissionInterval = 14, isEmitting = False, canSupportLife = True,
     isGoingSupernova = False, isObscured = False, opacity = 0.9, materialColor = BaseColor,
     light = None\<rparr>"
  by (simp add: Star_new_def generateStarColor_def defaultSettings_def)

lemma sqrt_10000: "sqrt 10000 = 100"
  using real_sqrt_abs[of 100] by simp

lemma sample_step1:
  "isActive (Star_updates defaultSettings
     (fst (Star_new defaultSettings (Vector3 100 0 0) (Vector3 0 0 0) MiddleAged (constEnv 0.9 0)))
     [(1, constEnv 0 5000)])"
  unfolding sample_star
  by (simp add: Star_update_def supernovaCheck_def agingFade_def distanceFromCenter_def
      activate_def addLight_def defaultSettings_def sqrt_10000)

lemma sample_step2:
  "hasDormantPlanet (Star_updates defaultSettings
     (fst (Star_new defaultSettings (Vector3 100 0 0) (Vector3 0 0 0) MiddleAged (constEnv 0.9 0)))
     [(1, constEnv 0 5000), (1, constEnv 0 6000)])"
  unfolding sample_star
  by (simp add: Star_update_def supernovaCheck_def agingFade_def distanceFromCenter_def
      activate_def addLight_def deactivate_def removeLight_def emissionTick_def
      defaultSettings_def sqrt_10000)


theorem star_one_active_epoch_witness:
  "hasDormantPlanet (Star_updates defaultSettings
     (fst (Star_new defaultSettings (Vector3 100 0 0) (Vector3 0 0 0) MiddleAged (constEnv 0.9 0)))
     [(1, constEnv 0 5000), (1, constEnv 0 6000)]) \<and>
   \<not> isActive (Star_updates defaultSettings
     (Star_updates defaultSettings
       (fst (Star_new defaultSettings (Vector3 100 0 0) (Vector3 0 0 0) MiddleAged (constEnv 0.9 0)))
       [(1, constEnv 0 5000), (1, constEnv 0 6000)])
     [(1, constEnv 0 7000), (1, constEnv 0 8000)])"
  using sample_step2
    star_one_active_epoch[of defaultSettings "Vector3 100 0 0" "Vector3 0 0 0" MiddleAged
      "constEnv 0.9 0" "[(1, constEnv 0 5000), (1, constEnv 0 6000)]"
      "[(1, constEnv 0 7000), (1, constEnv 0 8000)]"]
  by blast

section \<open>The probability draws\<close>

lemma agingFade_more [simp]:
  "isGoingSupernova (agingFade st s) = isGoingSupernova s"
  "distanceFromCenter (agingFade st s) = distanceFromCenter s"
  by (simp_all add: agingFade_def Let_def distanceFromCenter_def)

lemma emissionTick_more [simp]:
  "isGoingSupernova (emissionTick st dt s) = isGoingSupernova s"
  by (simp add: emissionTick_def Let_def)

lemma activate_more [simp]:
  "isGoingSupernova (fst (activate st env s)) = isGoingSupernova s"
  by (simp add: activate_def addLight_def Let_def split_beta split: option.splits)

lemma deactivate_more [simp]:
  "isGoingSupernova (deactivate s) = isGoingSupernova s"
  by (simp add: deactivate_def removeLight_def Let_def)

lemma distanceFromCenter_age [simp]:
  "distanceFromCenter (s\<lparr>age := a\<rparr>) = distanceFromCenter s"
  by (simp add: distanceFromCenter_def)

lemma supernova_draw:
  "isGoingSupernova (fst (Star_update st dt env s)) \<longleftrightarrow>
     isGoingSupernova s \<or>
     (lifetime s \<le> age s + dt \<and> fst (Math_random env) < activationChance st)"
  unfolding Star_update_cases Let_def
  by (auto simp: supernovaCheck_def)

lemma activation_draw:
  assumes "\<not> isGoingSupernova (fst (Star_update st dt env s))" "\<not> isActive s"
  shows "isActive (fst (Star_update st dt env s)) \<longleftrightarrow>
     \<not> hasDormantPlanet s \<and> canSupportLife s \<and>
     minDistanceFromCenter st \<le> distanceFromCenter s \<and>
     fst (Math_random (afterSupernovaDraw dt env s)) < activationChance st * dt"
proof -
  from assms(1) have n: "\<not> isGoingSupernova s"
    and k: "\<not> (lifetime s \<le> age s + dt \<and> fst (Math_random env) < activationChance st)"
    unfolding supernova_draw by blast+
  show ?thesis
    unfolding Star_update_cases Let_def afterSupernovaDraw_def
    using n k assms(2) by (auto simp: supernovaCheck_def)
qed

lemma deactivation_draw:
  assumes "\<not> isGoingSupernova (fst (Star_update st dt env s))" "isActive s"
  shows "isActive (fst (Star_update st dt env s)) \<longleftrightarrow>
     \<not> fst (Math_random (afterSupernovaDraw dt env s)) < deactivationChance st * dt"
proof -
  from assms(1) have n: "\<not> isGoingSupernova s"
    and k: "\<not> (lifetime s \<le> age s + dt \<and> fst (Math_random env) < activationChance st)"
    unfolding supernova_draw by blast+
  show ?thesis
    unfolding Star_update_cases Let_def afterSupernovaDraw_def
    using n k assms(2) by (auto simp: supernovaCheck_def)
qed

lemma birth_draw:
  assumes "real (length (stars m)) < maxStars (settings m)"
    "real (length (stars m)) < starBirthPopulationThreshold (settings m)"
  shows "starBirth dt env m =
     (if fst (Math_random env)
           < starBirthReplacementRatio (settings m) * dt / starBirthTimeDivisor (settings m)
      then spawnInRandomGalaxy (snd (Math_random env)) m
      else Ok (m, snd (Math_random env)))"
  using assms by (simp add: starBirth_def split_beta)


lemma sampleStar_eq:
  "sampleStar =
   \<lparr>position = Vector3 100 0 0, galaxyCenter = Vector3 0 0 0, age = 0, lifetime = 168,
     hasDormantPlanet = False, isActive = False, activationTime = None,
     emissionTimer = 9, emissionInterval = 14, isEmitting = False, canSupportLife = True,
     isGoingSupernova = False, isObscured = False, opacity = 0.9, materialColor = BaseColor,
     light = None\<rparr>"
  unfolding sampleStar_def by (rule sample_star)

text \<open>
  Claim C8, as the code has it. The activation draw is compared with
  \<open>activationChance * deltaTime\<close>, the deactivation draw with
  \<open>deactivationChance * deltaTime\<close>, and the birth draw with
  \<open>starBirthReplacementRatio * deltaTime / starBirthTimeDivisor\<close>. The supernova draw,
  made once when the star has reached its lifetime, is compared with the bare
  \<open>activationChance\<close>, not multiplied by \<open>deltaTime\<close>.
\<close>

theorem draws_scaled_except_supernova:
  "(isGoingSupernova (fst (Star_update st dt env s)) \<longleftrightarrow>
      isGoingSupernova s \<or>
      (lifetime s \<le> age s + dt \<and> fst (Math_random env) < activationChance st)) \<and>
   (\<not> isGoingSupernova (fst (Star_update st dt env s)) \<and> \<not> isActive s \<longrightarrow>
      (isActive (fst (Star_update st dt env s)) \<longleftrightarrow>
         \<not> hasDormantPlanet s \<and> canSupportLife s \<and>
         minDistanceFromCenter st \<le> distanceFromCenter s \<and>
         fst (Math_random (afterSupernovaDraw dt env s)) < activationChance st * dt)) \<and>
   (\<not> isGoingSupernova (fst (Star_update st dt env s)) \<and> isActive s \<longrightarrow>
      (isActive (fst (Star_update st dt env s)) \<longleftrightarrow>
         \<not> fst (Math_random (afterSupernovaDraw dt env s)) < deactivationChance st * dt)) \<and>
   (real (length (stars m)) < maxStars (settings m) \<and>
    real (length (stars m)) < starBirthPopulationThreshold (settings m) \<longrightarrow>
      starBirth dt env m =
        (if fst (Math_random env)
              < starBirthReplacementRatio (settings m) * dt / starBirthTimeDivisor (settings m)
         then spawnInRandomGalaxy (snd (Math_random env)) m
         else Ok (m, snd (Math_random env))))"
  using supernova_draw[of st dt env s] activation_draw[of st dt env s]
    deactivation_draw[of st dt env s] birth_draw[of m dt env]
  by blast

theorem draws_scaled_except_supernova_witness:
  "(\<not> isGoingSupernova (fst (Star_update defaultSettings 1 (constEnv 0 5000) sampleStar)) \<and>
      \<not> isActive sampleStar) \<and>
   isActive (fst (Star_update defaultSettings 1 (constEnv 0 5000) sampleStar)) \<and>
   (\<not> isGoingSupernova (fst (Star_update defaultSettings 1 (constEnv 0.5 5000)
        (sampleStar\<lparr>isActive := True, activationTime := Some 5\<rparr>))) \<and>
      isActive (sampleStar\<lparr>isActive := True, activationTime := Some 5\<rparr>)) \<and>
   isActive (fst (Star_update defaultSettings 1 (constEnv 0.5 5000)
        (sampleStar\<lparr>isActive := True, activationTime := Some 5\<rparr>))) \<and>
   (real (length (stars (NetworkManager_new defaultSettings (\<lambda>a. sampleStar) 0)))
        < maxStars (settings (NetworkManager_new defaultSettings (\<lambda>a. sampleStar) 0)) \<and>
    real (length (stars (NetworkManager_new defaultSettings (\<lambda>a. sampleStar) 0)))
        < starBirthPopulationThreshold
            (settings (NetworkManager_new defaultSettings (\<lambda>a. sampleStar) 0))) \<and>
   starBirth 1 (constEnv 0.5 5000) (NetworkManager_new defaultSettings (\<lambda>a. sampleStar) 0) =
     Ok (NetworkManager_new defaultSettings (\<lambda>a. sampleStar) 0, constEnv 0.5 5000)"
proof -
  let ?act = "sampleStar\<lparr>isActive := True, activationTime := Some 5\<rparr>"
  let ?m = "NetworkManager_new defaultSettings (\<lambda>a. sampleStar) 0"
  have n1: "\<not> isGoingSupernova (fst (Star_update defaultSettings 1 (constEnv 0 5000) sampleStar))"
    unfolding supernova_draw by (simp add: sampleStar_eq)
  have a1: "\<not> isActive sampleStar" by (simp add: sampleStar_eq)
  have n2: "\<not> isGoingSupernova (fst (Star_update defaultSettings 1 (constEnv 0.5 5000) ?act))"
    unfolding supernova_draw by (simp add: sampleStar_eq)
  have a2: "isActive ?act" by simp
  have g: "real (length (stars ?m)) < maxStars (settings ?m)"
      "real (length (stars ?m)) < starBirthPopulationThreshold (settings ?m)"
    by (simp_all add: NetworkManager_new_def defaultSettings_def)
  have d: "distanceFromCenter sampleStar = 100"
    by (simp add: distanceFromCenter_def sampleStar_eq sqrt_10000)
  have r1: "isActive (fst (Star_update defaultSettings 1 (constEnv 0 5000) sampleStar))"
    using draws_scaled_except_supernova[of defaultSettings 1 "constEnv 0 5000" sampleStar] n1 a1 d
    by (simp add: afterSupernovaDraw_def) (simp add: sampleStar_eq defaultSettings_def)
  have r2: "isActive (fst (Star_update defaultSettings 1 (constEnv 0.5 5000) ?act))"
    using draws_scaled_except_supernova[of defaultSettings 1 "constEnv 0.5 5000" ?act] n2 a2
    by (simp add: afterSupernovaDraw_def) (simp add: defaultSettings_def)
  have r3: "starBirth 1 (constEnv 0.5 5000) ?m = Ok (?m, constEnv 0.5 5000)"
    using draws_scaled_except_supernova[of defaultSettings 1 "constEnv 0.5 5000" sampleStar ?m] g
    by (simp add: NetworkManager_new_def defaultSettings_def)
  from n1 a1 r1 n2 a2 r2 g r3 show ?thesis by blast
qed

text \<open>
  The claim as stated fails for the supernova draw: a star at the end of its life, a frame
  of 1/60 s and the draw 0.0001, which is below \<open>activationChance = 0.0005\<close> and not
  below \<open>activationChance * deltaTime\<close>.
\<close>

theorem supernova_draw_scaled_counterexample:
  "\<not> (isGoingSupernova
        (fst (Star_update defaultSettings (1/60) (constEnv (1/10000) 0) (sampleStar\<lparr>age := 168\<rparr>)))
      \<longleftrightarrow>
        isGoingSupernova (sampleStar\<lparr>age := 168\<rparr>) \<or>
        (lifetime (sampleStar\<lparr>age := 168\<rparr>) \<le> age (sampleStar\<lparr>age := 168\<rparr>) + 1/60 \<and>
         fst (Math_random (constEnv (1/10000) 0)) < activationChance defaultSettings * (1/60)))"
  unfolding supernova_draw by (simp add: sampleStar_eq defaultSettings_def)

section \<open>Connections\<close>

subsection \<open>createConnection\<close>

lemma connKey_eq_pairKey:
  "connKey c = pairKey a b \<longleftrightarrow>
     (star1 c = a \<and> star2 c = b) \<or> (star1 c = b \<and> star2 c = a)"
  by (auto simp: connKey_def pairKey_def min_def max_def split: if_splits)

lemma existingConnection_iff:
  "existingConnection m a b \<longleftrightarrow> (\<exists>c \<in> set (connections m). connKey c = pairKey a b)"
  unfolding existingConnection_def list_ex_iff connKey_eq_pairKey ..

lemma existingConnection_keys:
  "existingConnection m a b \<longleftrightarrow> pairKey a b \<in> set (map connKey (connections m))"
proof
  assume "existingConnection m a b"
  then obtain c where c: "c \<in> set (connections m)" and k: "connKey c = pairKey a b"
    unfolding existingConnection_iff by blast
  from c have "connKey c \<in> connKey ` set (connections m)" by (rule imageI)
  then show "pairKey a b \<in> set (map connKey (connections m))" unfolding k by simp
next
  assume "pairKey a b \<in> set (map connKey (connections m))"
  then obtain c where "c \<in> set (connections m)" "pairKey a b = connKey c" by auto
  then show "existingConnection m a b" unfolding existingConnection_iff by force
qed

lemma samePair_iff: "samePair c d \<longleftrightarrow> connKey c = connKey d"
  by (auto simp: samePair_def connKey_def pairKey_def min_def max_def split: if_splits)

lemma uniquePairs_iff: "uniquePairs m \<longleftrightarrow> distinct (map connKey (connections m))"
  unfolding uniquePairs_def samePair_iff distinct_conv_nth
  by (auto simp: )

lemma pairKey_commute: "pairKey a b = pairKey b a"
  by (simp add: pairKey_def min.commute max.commute)

lemma existingConnection_commute: "existingConnection m a b = existingConnection m b a"
  by (simp add: existingConnection_keys pairKey_commute)

lemma createConnection_cases:
  "createConnection m a b = m \<or>
   (\<not> existingConnection m a b \<and>
    createConnection m a b = m\<lparr>connections := connections m @ [\<lparr>star1 = a, star2 = b\<rparr>]\<rparr>)"
  by (simp add: createConnection_def)

lemma createConnection_unique: "uniquePairs m \<Longrightarrow> uniquePairs (createConnection m a b)"
  using createConnection_cases[of m a b]
  by (auto simp: uniquePairs_iff existingConnection_keys connKey_def)

lemma createConnection_existing: "existingConnection m a b \<Longrightarrow> createConnection m a b = m"
  by (simp add: createConnection_def)

lemma createConnection_frame [simp]:
  "settings (createConnection m a b) = settings m"
  "objs (createConnection m a b) = objs m"
  "stars (createConnection m a b) = stars m"
  "dustClouds (createConnection m a b) = dustClouds m"
  "starGrid (createConnection m a b) = starGrid m"
  "dustGrid (createConnection m a b) = dustGrid m"
  "nextId (createConnection m a b) = nextId m"
  by (simp_all add: createConnection_def)

lemma dust_frame [simp]:
  "isStarInDustCloud (m\<lparr>connections := cs\<rparr>) = isStarInDustCloud m"
  "isBlockedByDust (m\<lparr>connections := cs\<rparr>) = isBlockedByDust m"
  by (simp_all add: isStarInDustCloud_def isBlockedByDust_def fun_eq_iff)

lemma createConnection_twice:
  "createConnection (createConnection m a b) a b = createConnection m a b"
proof -
  from createConnection_cases[of m a b] show ?thesis
  proof
    assume "createConnection m a b = m" then show ?thesis by simp
  next
    assume c: "\<not> existingConnection m a b \<and>
      createConnection m a b = m\<lparr>connections := connections m @ [\<lparr>star1 = a, star2 = b\<rparr>]\<rparr>"
    then have "existingConnection (createConnection m a b) a b"
      by (simp add: existingConnection_def)
    then show ?thesis by (rule createConnection_existing)
  qed
qed

lemma createConnection_twice_swapped:
  "createConnection (createConnection m a b) b a = createConnection m a b \<or>
   createConnection m a b = m"
proof -
  from createConnection_cases[of m a b] show ?thesis
  proof
    assume "createConnection m a b = m" then show ?thesis by simp
  next
    assume c: "\<not> existingConnection m a b \<and>
      createConnection m a b = m\<lparr>connections := connections m @ [\<lparr>star1 = a, star2 = b\<rparr>]\<rparr>"
    then have "existingConnection (createConnection m a b) b a"
      by (simp add: existingConnection_def)
    then show ?thesis using createConnection_existing by blast
  qed
qed

subsection \<open>The handshake loops\<close>


lemma handshakePair_skip:
  "a = b \<or> pairKey a b \<in> set (fst cm) \<Longrightarrow> handshakePair t a cm b = cm"
  by (auto simp: handshakePair_def Let_def)

lemma handshakePair_step:
  assumes "a \<noteq> b" "pairKey a b \<notin> set (fst cm)"
  shows "handshakePair t a cm b =
    (fst cm @ [pairKey a b],
     if handshakeReady (snd cm) t a b then createConnection (snd cm) a b else snd cm)"
  using assms
  by (cases "activationTime (objs (snd cm) a)"; cases "activationTime (objs (snd cm) b)")
     (auto simp: handshakePair_def handshakeReady_def Let_def createConnection_def)



lemma ready_frame [simp]:
  "handshakeReady (m\<lparr>connections := cs\<rparr>) = handshakeReady m"
  "unobstructed (m\<lparr>connections := cs\<rparr>) = unobstructed m"
  by (simp_all add: handshakeReady_def unobstructed_def fun_eq_iff)

lemma createConnection_conn: "\<exists>cs. createConnection m a b = m\<lparr>connections := cs\<rparr>"
proof (cases "createConnection m a b = m")
  case True
  then have "createConnection m a b = m\<lparr>connections := connections m\<rparr>" by simp
  then show ?thesis ..
next
  case False
  with createConnection_cases[of m a b]
  have "createConnection m a b = m\<lparr>connections := connections m @ [\<lparr>star1 = a, star2 = b\<rparr>]\<rparr>"
    by blast
  then show ?thesis ..
qed



lemma handshakePair_conn: "\<exists>cs. snd (handshakePair t a cm b) = (snd cm)\<lparr>connections := cs\<rparr>"
proof (cases "a = b \<or> pairKey a b \<in> set (fst cm)")
  case True
  have "snd cm = (snd cm)\<lparr>connections := connections (snd cm)\<rparr>" by simp
  then have "snd (handshakePair t a cm b) = (snd cm)\<lparr>connections := connections (snd cm)\<rparr>"
    using handshakePair_skip[OF True, of t] by simp
  then show ?thesis ..
next
  case False
  then have s: "handshakePair t a cm b =
    (fst cm @ [pairKey a b],
     if handshakeReady (snd cm) t a b then createConnection (snd cm) a b else snd cm)"
    using handshakePair_step by blast
  show ?thesis
  proof (cases "handshakeReady (snd cm) t a b")
    case True
    then show ?thesis unfolding s using createConnection_conn[of "snd cm" a b] by simp
  next
    case False
    have "snd cm = (snd cm)\<lparr>connections := connections (snd cm)\<rparr>" by simp
    then have "snd (handshakePair t a cm b) = (snd cm)\<lparr>connections := connections (snd cm)\<rparr>"
      unfolding s using False by simp
    then show ?thesis ..
  qed
qed





lemma handshakeFold_Nil [simp]: "handshakeFold t cm [] = cm"
  by (simp add: handshakeFold_def)

lemma handshakeFold_Cons [simp]:
  "handshakeFold t cm (p # ps) = handshakeFold t (handshakePair t (fst p) cm (snd p)) ps"
  by (simp add: handshakeFold_def)

lemma handshakeFold_append:
  "handshakeFold t cm (ps @ qs) = handshakeFold t (handshakeFold t cm ps) qs"
  by (simp add: handshakeFold_def)

lemma handshakeFold_conn:
  "\<exists>cs. snd (handshakeFold t cm ps) = (snd cm)\<lparr>connections := cs\<rparr>"
proof (induction ps arbitrary: cm)
  case Nil
  have "snd cm = (snd cm)\<lparr>connections := connections (snd cm)\<rparr>" by simp
  then show ?case by (metis handshakeFold_Nil)
next
  case (Cons p ps)
  from handshakePair_conn[of t "fst p" cm "snd p"] obtain cs where
    c: "snd (handshakePair t (fst p) cm (snd p)) = (snd cm)\<lparr>connections := cs\<rparr>" by blast
  from Cons.IH[of "handshakePair t (fst p) cm (snd p)"] obtain cs' where
    "snd (handshakeFold t (handshakePair t (fst p) cm (snd p)) ps) =
      (snd (handshakePair t (fst p) cm (snd p)))\<lparr>connections := cs'\<rparr>" by blast
  then have "snd (handshakeFold t cm (p # ps)) = (snd cm)\<lparr>connections := cs'\<rparr>"
    unfolding c by simp
  then show ?case ..
qed

lemma handshakeFold_ready [simp]:
  "handshakeReady (snd (handshakeFold t cm ps)) = handshakeReady (snd cm)"
  "unobstructed (snd (handshakeFold t cm ps)) = unobstructed (snd cm)"
  using handshakeFold_conn[of t cm ps] by auto

lemma handshakePair_ready [simp]:
  "handshakeReady (snd (handshakePair t a cm b)) = handshakeReady (snd cm)"
  "unobstructed (snd (handshakePair t a cm b)) = unobstructed (snd cm)"
  using handshakePair_conn[of t a cm b] by auto





lemma handshakeStar_fold:
  assumes "snd cm = m\<lparr>connections := cs\<rparr>"
  shows "handshakeStar t cm a =
    handshakeFold t cm (map (Pair a)
       (queryRadius (starGrid m) (position (objs m a)) (maxConnectionDistance (settings m))))"
  unfolding handshakeStar_def handshakeFold_def Let_def assms
  by (simp add: foldl_map)

lemma handshake_loops_fold:
  assumes "snd cm = m\<lparr>connections := cs\<rparr>"
  shows "foldl (handshakeStar t) cm active = handshakeFold t cm (handshakePairs m active)"
  using assms
proof (induction active arbitrary: cm cs)
  case Nil
  then show ?case by (simp add: handshakePairs_def)
next
  case (Cons a active)
  let ?ps = "map (Pair a)
       (queryRadius (starGrid m) (position (objs m a)) (maxConnectionDistance (settings m)))"
  have s: "handshakeStar t cm a = handshakeFold t cm ?ps"
    by (rule handshakeStar_fold[OF Cons.prems])
  from handshakeFold_conn[of t cm ?ps] obtain cs' where
    "snd (handshakeFold t cm ?ps) = (snd cm)\<lparr>connections := cs'\<rparr>" by blast
  then have f: "snd (handshakeFold t cm ?ps) = m\<lparr>connections := cs'\<rparr>"
    unfolding Cons.prems by simp
  have "foldl (handshakeStar t) cm (a # active) =
      foldl (handshakeStar t) (handshakeFold t cm ?ps) active"
    by (simp add: s)
  also have "\<dots> = handshakeFold t (handshakeFold t cm ?ps) (handshakePairs m active)"
    by (rule Cons.IH[OF f])
  also have "\<dots> = handshakeFold t cm (handshakePairs m (a # active))"
    by (simp add: handshakePairs_def handshakeFold_append)
  finally show ?case .
qed

lemma handshake_fold:
  "handshake t active m = snd (handshakeFold t ([], m) (handshakePairs m active))"
proof -
  have "snd ([], m) = m\<lparr>connections := connections m\<rparr>" by simp
  from handshake_loops_fold[OF this] show ?thesis by (simp add: handshake_def)
qed

text \<open>Only inserted items come out of a grid that was cleared first.\<close>

lemma insert_grid_items:
  assumes "map_of (grid (insert_grid g p x)) k = Some items" "y \<in> set items"
  shows "y = x \<or> (\<exists>items'. map_of (grid g) k = Some items' \<and> y \<in> set items')"
  using assms by (auto simp: grid_insert_grid split: if_splits option.splits)

lemma insert_all_items:
  "map_of (grid (insert_all g ps)) k = Some items \<Longrightarrow> y \<in> set items \<Longrightarrow>
   y \<in> snd ` set ps \<or> (\<exists>items'. map_of (grid g) k = Some items' \<and> y \<in> set items')"
proof (induction ps arbitrary: items rule: rev_induct)
  case Nil
  then show ?case by (simp add: insert_all_def)
next
  case (snoc e ps)
  from snoc.prems have "map_of (grid (insert_grid (insert_all g ps) (fst e) (snd e))) k = Some items"
    by (simp add: insert_all_snoc)
  from insert_grid_items[OF this snoc.prems(2)]
  show ?case
  proof
    assume "y = snd e" then show ?thesis by simp
  next
    assume "\<exists>items'. map_of (grid (insert_all g ps)) k = Some items' \<and> y \<in> set items'"
    then obtain items' where "map_of (grid (insert_all g ps)) k = Some items'" "y \<in> set items'"
      by blast
    from snoc.IH[OF this] show ?thesis by auto
  qed
qed

lemma queryRadius_only_inserted:
  assumes "y \<in> set (queryRadius (insert_all (clear_grid g) ps) q r)"
  shows "y \<in> snd ` set ps"
proof -
  from assms obtain k items where
    "map_of (grid (insert_all (clear_grid g) ps)) k = Some items" "y \<in> set items"
    unfolding in_queryRadius_iff by blast
  from insert_all_items[OF this] show ?thesis by (simp add: clear_grid_def)
qed

lemma rebuildStarGrid_frame [simp]:
  "objs (rebuildStarGrid m) = objs m"
  "settings (rebuildStarGrid m) = settings m"
  "connections (rebuildStarGrid m) = connections m"
  "dustClouds (rebuildStarGrid m) = dustClouds m"
  "stars (rebuildStarGrid m) = stars m"
  "starGrid (rebuildStarGrid m) =
     insert_all (clear_grid (starGrid m)) (map (\<lambda>a. (position (objs m a), a)) (activeStars m))"
  by (simp_all add: rebuildStarGrid_def)

lemma rebuildStarGrid_props [simp]:
  "handshakeReady (rebuildStarGrid m) = handshakeReady m"
  "unobstructed (rebuildStarGrid m) = unobstructed m"
  "connectedKeys (rebuildStarGrid m) = connectedKeys m"
  by (simp_all add: handshakeReady_def unobstructed_def connectedKeys_def fun_eq_iff
      isStarInDustCloud_def isBlockedByDust_def)

lemma handshakePhase_eq:
  "fst (handshakePhase env m) =
     snd (handshakeFold (fst (Date_now env) / 1000) ([], rebuildStarGrid m)
            (handshakePairs (rebuildStarGrid m) (activeStars m)))"
  by (simp add: handshakePhase_def Let_def split_beta handshake_fold)

lemma handshakePairs_members:
  assumes "p \<in> set (handshakePairs (rebuildStarGrid m) (activeStars m))"
  shows "fst p \<in> set (activeStars m) \<and> snd p \<in> set (activeStars m)"
proof -
  from assms obtain x where x: "x \<in> set (activeStars m)"
    and p: "p \<in> Pair x ` set (queryRadius (starGrid (rebuildStarGrid m))
        (position (objs m x)) (maxConnectionDistance (settings m)))"
    by (auto simp: handshakePairs_def)
  then obtain y where y: "y \<in> set (queryRadius (starGrid (rebuildStarGrid m))
        (position (objs m x)) (maxConnectionDistance (settings m)))" and pe: "p = (x, y)"
    by blast
  from y have "y \<in> snd ` set (map (\<lambda>a. (position (objs m a), a)) (activeStars m))"
    unfolding rebuildStarGrid_frame by (rule queryRadius_only_inserted)
  then have "y \<in> set (activeStars m)" by auto
  with x pe show ?thesis by simp
qed





lemma sqrt_100: "sqrt 100 = 10"
  using real_sqrt_abs[of 10] by simp

lemma scenario_fields [simp]:
  "stars (scenario cl) = [0, 1]"
  "connections (scenario cl) = []"
  "dustClouds (scenario cl) = cl"
  "settings (scenario cl) = scenarioSettings"
  "objs (scenario cl) = scenarioStore"
  "cellSize (starGrid (scenario cl)) = maxConnectionDistance scenarioSettings"
  "grid (starGrid (scenario cl)) = []"
  by (simp_all add: scenario_def NetworkManager_new_def SpatialGrid_new_def)

lemma scenario_settings [simp]:
  "maxConnectionDistance scenarioSettings = 20"
  "waveSpeed scenarioSettings = 5"
  by (simp_all add: maxConnectionDistance_def scenarioSettings_def defaultSettings_def galaxy0_def)

lemma scenario_stars [simp]:
  "position (scenarioStore 0) = Vector3 0 0 0"
  "position (scenarioStore (Suc 0)) = Vector3 10 0 0"
  "activationTime (scenarioStore 0) = Some 0"
  "activationTime (scenarioStore (Suc 0)) = Some 0"
  "isActive (scenarioStore 0)"
  "isActive (scenarioStore (Suc 0))"
  by (simp_all add: scenarioStore_def activeStarAt_def)

lemma scenario_distance [simp]:
  "distanceTo (Vector3 0 0 0) (Vector3 10 0 0) = 10"
  "distanceTo (Vector3 10 0 0) (Vector3 0 0 0) = 10"
  by (simp_all add: distanceTo_def sqrt_100)




lemma scenario_active [simp]: "activeStars (scenario cl) = [0, 1]"
  by (simp add: activeStars_def)


lemma upto_around_zero: "[- 1 .. 1] = [- 1, 0, 1 :: int]"
  by (simp add: upto.simps)



section \<open>The handshake phase\<close>




section \<open>The update tick\<close>

subsection \<open>What the phases of update leave unchanged\<close>

lemma updateStar_frame [simp]:
  "connections (fst (updateStar dt me a)) = connections (fst me)"
  "stars (fst (updateStar dt me a)) = stars (fst me)"
  "settings (fst (updateStar dt me a)) = settings (fst me)"
  "dustClouds (fst (updateStar dt me a)) = dustClouds (fst me)"
  "dustGrid (fst (updateStar dt me a)) = dustGrid (fst me)"
  by (simp_all add: updateStar_def Let_def split_beta)

lemma updateStars_fold_frame:
  "connections (fst (foldl (updateStar dt) me as)) = connections (fst me) \<and>
   stars (fst (foldl (updateStar dt) me as)) = stars (fst me) \<and>
   settings (fst (foldl (updateStar dt) me as)) = settings (fst me)"
  by (induction as arbitrary: me) simp_all

lemma updateStars_frame [simp]:
  "connections (fst (updateStars dt env m)) = connections m"
  "stars (fst (updateStars dt env m)) = stars m"
  "settings (fst (updateStars dt env m)) = settings m"
  using updateStars_fold_frame[of dt "(m, env)" "stars m"] by (simp_all add: updateStars_def)

lemma removeDeadStars_frame [simp]:
  "connections (snd (removeDeadStars m)) = connections m"
  "objs (snd (removeDeadStars m)) = objs m"
  "settings (snd (removeDeadStars m)) = settings m"
  "stars (snd (removeDeadStars m)) = filter (\<lambda>a. isAlive (objs m a)) (stars m)"
  "fst (removeDeadStars m) = filter (\<lambda>a. \<not> isAlive (objs m a)) (stars m)"
  by (simp_all add: removeDeadStars_def)

text \<open>
  A call that binds a config to \<open>center\<close> throws at the first star it constructs, with
  nothing changed but the id counter.
\<close>

lemma spawnStar_config:
  "spawnStar (CenterConfig cfg) env m = Threw TypeError (m\<lparr>nextId := nextId m + 1\<rparr>)"
  by (simp add: spawnStar_def split_beta)

lemma spawnStars_config:
  "spawnStars n (CenterConfig cfg) env m =
     (if n = 0 then Ok (m, env) else Threw TypeError (m\<lparr>nextId := nextId m + 1\<rparr>))"
  by (cases n) (simp_all add: spawnStar_config)

lemma createSpiralGalaxy_config_one:
  "createSpiralGalaxy (CenterConfig cfg) 1 None env m =
     Threw TypeError (m\<lparr>nextId := nextId m + 1\<rparr>)"
proof -
  let ?k = "\<lfloor>of_int 1 * centralBulgeFraction (settings m)\<rfloor>"
  have "nat ?k \<noteq> 0 \<or> nat (1 - ?k) \<noteq> 0" by linarith
  then show ?thesis
    by (auto simp: createSpiralGalaxy_def Let_def spawnStars_config)
qed

lemma spawnInRandomGalaxy_cases:
  "spawnInRandomGalaxy env m = Ok (m, snd (Math_random env)) \<or>
   spawnInRandomGalaxy env m = Threw TypeError m \<or>
   spawnInRandomGalaxy env m = Threw TypeError (m\<lparr>nextId := nextId m + 1\<rparr>)"
  by (simp add: spawnInRandomGalaxy_def Let_def split_beta createSpiralGalaxy_config_one
      split: option.splits)

lemma starBirth_cases:
  "(\<exists>env1. starBirth dt env m = Ok (m, env1)) \<or>
   starBirth dt env m = Threw TypeError m \<or>
   starBirth dt env m = Threw TypeError (m\<lparr>nextId := nextId m + 1\<rparr>)"
  using spawnInRandomGalaxy_cases[of "snd (Math_random env)" m]
  by (auto simp: starBirth_def Let_def split_beta)

lemma pruneConnections_frame [simp]:
  "objs (pruneConnections dead m) = objs m"
  "stars (pruneConnections dead m) = stars m"
  "settings (pruneConnections dead m) = settings m"
  "starGrid (pruneConnections dead m) = starGrid m"
  "dustGrid (pruneConnections dead m) = dustGrid m"
  "dustClouds (pruneConnections dead m) = dustClouds m"
  by (simp_all add: pruneConnections_def)

lemma waves_frame [simp]:
  "connections (updateWaves dt m) = connections m"
  "objs (updateWaves dt m) = objs m"
  "stars (updateWaves dt m) = stars m"
  "settings (updateWaves dt m) = settings m"
  "starGrid (updateWaves dt m) = starGrid m"
  "dustGrid (updateWaves dt m) = dustGrid m"
  "connections (rebuildWaveGrid m) = connections m"
  "objs (rebuildWaveGrid m) = objs m"
  "stars (rebuildWaveGrid m) = stars m"
  "settings (rebuildWaveGrid m) = settings m"
  "starGrid (rebuildWaveGrid m) = starGrid m"
  "dustGrid (rebuildWaveGrid m) = dustGrid m"
  by (simp_all add: updateWaves_def rebuildWaveGrid_def)

lemma obscureStar_frame [simp]:
  "connections (obscureStar m a) = connections m"
  "stars (obscureStar m a) = stars m"
  "settings (obscureStar m a) = settings m"
  "dustGrid (obscureStar m a) = dustGrid m"
  by (simp_all add: obscureStar_def)

lemma obscure_fold_frame:
  "connections (foldl obscureStar m as) = connections m \<and>
   stars (foldl obscureStar m as) = stars m \<and>
   settings (foldl obscureStar m as) = settings m \<and>
   dustGrid (foldl obscureStar m as) = dustGrid m"
  by (induction as arbitrary: m) simp_all

lemma dustObscuration_frame [simp]:
  "connections (dustObscuration m) = connections m"
  "stars (dustObscuration m) = stars m"
  "settings (dustObscuration m) = settings m"
  "dustGrid (dustObscuration m) = dustGrid m"
  using obscure_fold_frame[of m "stars m"] by (simp_all add: dustObscuration_def)

text \<open>The two ways in which a call of update ends.\<close>

lemma update_cases:
  "(\<exists>e m3. update dt env m = Threw e m3 \<and> connections m3 = connections m) \<or>
   (\<exists>env2. update dt env m =
      Ok (afterBirth dt (fst (removeDeadStars (fst (updateStars dt env m)))) env2
            (snd (removeDeadStars (fst (updateStars dt env m))))))"
proof -
  let ?m1 = "fst (updateStars dt env m)"
  let ?env1 = "snd (updateStars dt env m)"
  let ?m2 = "snd (removeDeadStars ?m1)"
  from starBirth_cases[of dt ?env1 ?m2] show ?thesis
  proof (elim disjE exE)
    fix env2 assume "starBirth dt ?env1 ?m2 = Ok (?m2, env2)"
    then have "update dt env m = Ok (afterBirth dt (fst (removeDeadStars ?m1)) env2 ?m2)"
      by (simp add: update_def Let_def split_beta)
    then show ?thesis by blast
  next
    assume "starBirth dt ?env1 ?m2 = Threw TypeError ?m2"
    then show ?thesis by (simp add: update_def Let_def split_beta)
  next
    assume "starBirth dt ?env1 ?m2 = Threw TypeError (?m2\<lparr>nextId := nextId ?m2 + 1\<rparr>)"
    then show ?thesis by (simp add: update_def Let_def split_beta)
  qed
qed

section \<open>Uniqueness of connections\<close>

subsection \<open>One connection for each pair\<close>

lemma uniquePairs_cong: "connections m1 = connections m \<Longrightarrow> uniquePairs m1 = uniquePairs m"
  by (simp add: uniquePairs_iff)

lemma pruneConnections_unique: "uniquePairs m \<Longrightarrow> uniquePairs (pruneConnections dead m)"
  by (simp add: uniquePairs_iff pruneConnections_def distinct_map_filter)

lemma handshakePair_unique:
  "uniquePairs (snd cm) \<Longrightarrow> uniquePairs (snd (handshakePair t a cm b))"
proof (cases "a = b \<or> pairKey a b \<in> set (fst cm)")
  case True
  assume "uniquePairs (snd cm)"
  then show ?thesis using True by (simp add: handshakePair_skip)
next
  case False
  assume u: "uniquePairs (snd cm)"
  from False have s: "handshakePair t a cm b =
    (fst cm @ [pairKey a b],
     if handshakeReady (snd cm) t a b then createConnection (snd cm) a b else snd cm)"
    using handshakePair_step by blast
  show ?thesis unfolding s using u by (simp add: createConnection_unique)
qed

lemma handshakeFold_unique:
  "uniquePairs (snd cm) \<Longrightarrow> uniquePairs (snd (handshakeFold t cm ps))"
  by (induction ps arbitrary: cm) (simp_all add: handshakePair_unique)

lemma handshakePhase_unique:
  "uniquePairs m \<Longrightarrow> uniquePairs (fst (handshakePhase env m))"
proof -
  assume "uniquePairs m"
  then have "uniquePairs (snd ([] :: (nat \<times> nat) list, rebuildStarGrid m))"
    by (simp add: uniquePairs_iff)
  then show ?thesis unfolding handshakePhase_eq by (rule handshakeFold_unique)
qed

lemma afterBirth_eq:
  "afterBirth dt dead env m3 =
     dustObscuration (fst (handshakePhase env
       (rebuildWaveGrid (updateWaves dt (pruneConnections dead m3)))))"
  by (simp add: afterBirth_def Let_def split_beta)

lemma afterBirth_unique: "uniquePairs m3 \<Longrightarrow> uniquePairs (afterBirth dt dead env m3)"
proof -
  assume "uniquePairs m3"
  then have "uniquePairs (pruneConnections dead m3)" by (rule pruneConnections_unique)
  then have "uniquePairs (rebuildWaveGrid (updateWaves dt (pruneConnections dead m3)))"
    by (simp add: uniquePairs_iff)
  then have "uniquePairs (fst (handshakePhase env
       (rebuildWaveGrid (updateWaves dt (pruneConnections dead m3)))))"
    by (rule handshakePhase_unique)
  then show ?thesis unfolding afterBirth_eq by (simp add: uniquePairs_iff)
qed

lemma update_unique:
  assumes "uniquePairs m"
  shows "update dt env m = Ok m1 \<Longrightarrow> uniquePairs m1"
    and "update dt env m = Threw e m1 \<Longrightarrow> uniquePairs m1"
proof -
  have u2: "uniquePairs (snd (removeDeadStars (fst (updateStars dt env m))))"
    using assms by (simp add: uniquePairs_iff)
  {
    assume "update dt env m = Ok m1"
    with update_cases[of dt env m] obtain env2 where
      "m1 = afterBirth dt (fst (removeDeadStars (fst (updateStars dt env m)))) env2
            (snd (removeDeadStars (fst (updateStars dt env m))))"
      by auto
    then show "uniquePairs m1" using afterBirth_unique[OF u2] by simp
  }
  {
    assume "update dt env m = Threw e m1"
    with update_cases[of dt env m] have "connections m1 = connections m" by auto
    then show "uniquePairs m1" using assms by (simp add: uniquePairs_iff)
  }
qed

lemma reachable_unique: "reachable m \<Longrightarrow> uniquePairs m"
proof (induction rule: reachable.induct)
  case (start m)
  then show ?case by (simp add: uniquePairs_def)
next
  case (create m a b)
  then show ?case by (simp add: createConnection_unique)
next
  case (update_returns m dt env m1)
  then show ?case using update_unique(1) by blast
next
  case (update_throws m dt env e m1)
  then show ?case using update_unique(2) by blast
qed

text \<open>
  Claim C3. In every state reached by calls of \<open>update\<close> and \<open>createConnection\<close> from a
  manager without connections, no two connections join the same unordered pair of stars.
  A call of \<open>createConnection\<close> for a pair that is already connected, in either
  orientation, returns the manager unchanged, and so does a second call after a first.
\<close>

theorem one_connection_per_pair:
  "(reachable m \<longrightarrow> uniquePairs m) \<and>
   (existingConnection m a b \<longrightarrow> createConnection m a b = m \<and> createConnection m b a = m) \<and>
   createConnection (createConnection m a b) a b = createConnection m a b"
  using reachable_unique[of m] createConnection_existing[of m a b]
    createConnection_existing[of m b a] existingConnection_commute[of m a b]
    createConnection_twice[of m a b]
  by blast

lemma scenario_connect:
  "createConnection (scenario []) 0 1 = (scenario [])\<lparr>connections := [\<lparr>star1 = 0, star2 = 1\<rparr>]\<rparr>"
  by (simp add: createConnection_def existingConnection_def isStarInDustCloud_def
      isBlockedByDust_def)

theorem one_connection_per_pair_witness:
  "reachable (createConnection (scenario []) 0 1) \<and>
   uniquePairs (createConnection (scenario []) 0 1) \<and>
   existingConnection (createConnection (scenario []) 0 1) 1 0 \<and>
   createConnection (createConnection (scenario []) 0 1) 1 0 = createConnection (scenario []) 0 1 \<and>
   createConnection (createConnection (scenario []) 0 1) 0 1 = createConnection (scenario []) 0 1 \<and>
   connections (createConnection (scenario []) 0 1) = [\<lparr>star1 = 0, star2 = 1\<rparr>]"
proof -
  have r: "reachable (createConnection (scenario []) 0 1)"
    by (rule reachable.create, rule reachable.start) simp
  have e: "existingConnection (createConnection (scenario []) 0 1) 1 0"
    unfolding scenario_connect by (simp add: existingConnection_def)
  have c: "connections (createConnection (scenario []) 0 1) = [\<lparr>star1 = 0, star2 = 1\<rparr>]"
    unfolding scenario_connect by simp
  from one_connection_per_pair[of "createConnection (scenario []) 0 1" 1 0] r e c
  show ?thesis by blast
qed

section \<open>Dust clouds and connections\<close>

subsection \<open>Dust between two stars\<close>



lemma addScaledVector_zero [simp]: "addScaledVector a d 0 = a"
  by (simp add: addScaledVector_def)




lemma sqrt_25: "sqrt 25 = 5"
  using real_sqrt_abs[of 5] by simp














section \<open>Death of a star\<close>

subsection \<open>Dead stars and their connections\<close>

lemma createConnection_connections:
  "set (connections (createConnection m a b)) \<subseteq>
     insert \<lparr>star1 = a, star2 = b\<rparr> (set (connections m))"
  using createConnection_cases[of m a b] by auto

lemma handshakePair_connections:
  "set (connections (snd (handshakePair t a cm b))) \<subseteq>
     insert \<lparr>star1 = a, star2 = b\<rparr> (set (connections (snd cm)))"
proof (cases "a = b \<or> pairKey a b \<in> set (fst cm)")
  case True
  then show ?thesis by (auto simp: handshakePair_skip)
next
  case False
  then have s: "handshakePair t a cm b =
    (fst cm @ [pairKey a b],
     if handshakeReady (snd cm) t a b then createConnection (snd cm) a b else snd cm)"
    using handshakePair_step by blast
  show ?thesis unfolding s using createConnection_connections[of "snd cm" a b] by auto
qed

lemma handshakeFold_connections:
  "c \<in> set (connections (snd (handshakeFold t cm ps))) \<Longrightarrow>
   c \<in> set (connections (snd cm)) \<or> (star1 c, star2 c) \<in> set ps"
proof (induction ps arbitrary: cm)
  case Nil
  then show ?case by simp
next
  case (Cons p ps)
  from Cons.IH[of "handshakePair t (fst p) cm (snd p)"] Cons.prems
  have "c \<in> set (connections (snd (handshakePair t (fst p) cm (snd p)))) \<or>
      (star1 c, star2 c) \<in> set ps" by simp
  then show ?case
  proof
    assume "c \<in> set (connections (snd (handshakePair t (fst p) cm (snd p))))"
    with handshakePair_connections[of t "fst p" cm "snd p"]
    have "c = \<lparr>star1 = fst p, star2 = snd p\<rparr> \<or> c \<in> set (connections (snd cm))" by blast
    then show ?thesis by auto
  next
    assume "(star1 c, star2 c) \<in> set ps"
    then show ?thesis by simp
  qed
qed

lemma handshakePhase_connections:
  assumes "c \<in> set (connections (fst (handshakePhase env m)))"
  shows "c \<in> set (connections m) \<or>
     (star1 c \<in> set (activeStars m) \<and> star2 c \<in> set (activeStars m))"
proof -
  from assms handshakeFold_connections[of c "fst (Date_now env) / 1000" "([], rebuildStarGrid m)"
      "handshakePairs (rebuildStarGrid m) (activeStars m)"]
  have "c \<in> set (connections m) \<or>
      (star1 c, star2 c) \<in> set (handshakePairs (rebuildStarGrid m) (activeStars m))"
    unfolding handshakePhase_eq by simp
  then show ?thesis using handshakePairs_members[of "(star1 c, star2 c)" m] by auto
qed

lemma handshakePhase_frame [simp]:
  "stars (fst (handshakePhase env m)) = stars m"
  "objs (fst (handshakePhase env m)) = objs m"
  "settings (fst (handshakePhase env m)) = settings m"
  "dustGrid (fst (handshakePhase env m)) = dustGrid m"
proof -
  from handshakeFold_conn[of "fst (Date_now env) / 1000" "([], rebuildStarGrid m)"
      "handshakePairs (rebuildStarGrid m) (activeStars m)"]
  obtain cs where "fst (handshakePhase env m) = (rebuildStarGrid m)\<lparr>connections := cs\<rparr>"
    unfolding handshakePhase_eq by auto
  then show "stars (fst (handshakePhase env m)) = stars m"
    "objs (fst (handshakePhase env m)) = objs m"
    "settings (fst (handshakePhase env m)) = settings m"
    "dustGrid (fst (handshakePhase env m)) = dustGrid m"
    by (simp_all add: rebuildStarGrid_def)
qed

lemma afterBirth_stars [simp]: "stars (afterBirth dt dead env m3) = stars m3"
  by (simp add: afterBirth_eq)

lemma afterBirth_connections:
  assumes "c \<in> set (connections (afterBirth dt dead env m3))"
  shows "(star1 c \<notin> set dead \<and> star2 c \<notin> set dead \<and> c \<in> set (connections m3)) \<or>
         (star1 c \<in> set (stars m3) \<and> star2 c \<in> set (stars m3))"
proof -
  let ?m6 = "rebuildWaveGrid (updateWaves dt (pruneConnections dead m3))"
  from assms have "c \<in> set (connections (fst (handshakePhase env ?m6)))"
    by (simp add: afterBirth_eq)
  from handshakePhase_connections[OF this]
  have "c \<in> set (connections (pruneConnections dead m3)) \<or>
     (star1 c \<in> set (activeStars ?m6) \<and> star2 c \<in> set (activeStars ?m6))"
    by simp
  then show ?thesis
    by (auto simp: pruneConnections_def activeStars_def)
qed

lemma agingFade_age [simp]:
  "age (agingFade st s) = age s" "lifetime (agingFade st s) = lifetime s"
  by (simp_all add: agingFade_def Let_def)

lemma emissionTick_age [simp]:
  "age (emissionTick st dt s) = age s" "lifetime (emissionTick st dt s) = lifetime s"
  by (simp_all add: emissionTick_def Let_def)

lemma activate_age [simp]:
  "age (fst (activate st env s)) = age s" "lifetime (fst (activate st env s)) = lifetime s"
  by (simp_all add: activate_def addLight_def Let_def split_beta split: option.splits)

lemma deactivate_age [simp]:
  "age (deactivate s) = age s" "lifetime (deactivate s) = lifetime s"
  by (simp_all add: deactivate_def removeLight_def Let_def)

lemma Star_update_age:
  "age (fst (Star_update st dt env s)) = age s + dt"
  "lifetime (fst (Star_update st dt env s)) = lifetime s"
  unfolding Star_update_cases Let_def by simp_all

lemma updateStar_objs:
  "b \<noteq> a \<Longrightarrow> objs (fst (updateStar dt me a)) b = objs (fst me) b"
  "age (objs (fst (updateStar dt me a)) a) = age (objs (fst me) a) + dt"
  "lifetime (objs (fst (updateStar dt me a)) a) = lifetime (objs (fst me) a)"
  by (simp_all add: updateStar_def Let_def split_beta consumeEmission_def Star_update_age)

lemma activate_env: "snd (activate st (constEnv u t) s) = constEnv u t"
  by (simp add: activate_def Let_def split_beta)

lemma Star_update_constEnv: "snd (Star_update st dt (constEnv u t) s) = constEnv u t"
  by (simp add: Star_update_def Let_def split_beta activate_env)

lemma updateStar_constEnv: "snd me = constEnv u t \<Longrightarrow> snd (updateStar dt me a) = constEnv u t"
  by (simp add: updateStar_def Let_def split_beta Star_update_constEnv)

lemma updateStars_constEnv: "snd (updateStars dt (constEnv u t) m) = constEnv u t"
proof -
  have "snd me = constEnv u t \<Longrightarrow> snd (foldl (updateStar dt) me as) = constEnv u t" for me as
    by (induction as arbitrary: me) (simp_all add: updateStar_constEnv)
  then show ?thesis by (simp add: updateStars_def)
qed

lemma starBirth_no_draw:
  "\<not> fst (Math_random env)
       < starBirthReplacementRatio (settings m) * dt / starBirthTimeDivisor (settings m) \<Longrightarrow>
   \<exists>env1. starBirth dt env m = Ok (m, env1)"
  by (simp add: starBirth_def Let_def split_beta)

lemma update_no_birth:
  assumes "\<not> fst (Math_random (snd (updateStars dt env m)))
       < starBirthReplacementRatio (settings m) * dt / starBirthTimeDivisor (settings m)"
  shows "\<exists>env2. update dt env m =
      Ok (afterBirth dt (fst (removeDeadStars (fst (updateStars dt env m)))) env2
            (snd (removeDeadStars (fst (updateStars dt env m)))))"
proof -
  let ?m2 = "snd (removeDeadStars (fst (updateStars dt env m)))"
  have "\<not> fst (Math_random (snd (updateStars dt env m)))
       < starBirthReplacementRatio (settings ?m2) * dt / starBirthTimeDivisor (settings ?m2)"
    using assms by simp
  from starBirth_no_draw[OF this] obtain env1 where
    "starBirth dt (snd (updateStars dt env m)) ?m2 = Ok (?m2, env1)" by blast
  then have "update dt env m =
      Ok (afterBirth dt (fst (removeDeadStars (fst (updateStars dt env m)))) env1 ?m2)"
    by (simp add: update_def Let_def split_beta)
  then show ?thesis by blast
qed

text \<open>
  Claim C9, as the code has it. In a tick of \<open>update\<close> that returns, a star that dies in
  the tick is removed from the array of stars first, while the connections are still as
  they were before the tick; the connections that refer to it are removed later in the
  same tick. When the tick ends, the star is in no array and no connection refers to it.
\<close>

theorem dead_star_first_then_connections:
  assumes "update dt env m = Ok m1"
    and "a \<in> set (stars m)"
    and "\<not> isAlive (objs (fst (updateStars dt env m)) a)"
  shows "a \<notin> set (stars (snd (removeDeadStars (fst (updateStars dt env m))))) \<and>
     connections (snd (removeDeadStars (fst (updateStars dt env m)))) = connections m \<and>
     a \<notin> set (stars m1) \<and>
     a \<notin> star1 ` set (connections m1) \<and> a \<notin> star2 ` set (connections m1)"
proof -
  let ?m1 = "fst (updateStars dt env m)"
  let ?dead = "fst (removeDeadStars ?m1)"
  let ?m2 = "snd (removeDeadStars ?m1)"
  have gone: "a \<notin> set (stars ?m2)" using assms(3) by simp
  have dead: "a \<in> set ?dead" using assms(2,3) by simp
  from update_cases[of dt env m] assms(1) obtain env2 where
    m1: "m1 = afterBirth dt ?dead env2 ?m2" by auto
  have "star1 c \<noteq> a \<and> star2 c \<noteq> a" if "c \<in> set (connections m1)" for c
    using afterBirth_connections[of c dt ?dead env2 ?m2] that gone dead unfolding m1 by blast
  then have "a \<notin> star1 ` set (connections m1)" "a \<notin> star2 ` set (connections m1)" by auto
  moreover have "a \<notin> set (stars m1)" using gone unfolding m1 by simp
  ultimately show ?thesis using gone by simp
qed

lemma dying_fields [simp]:
  "stars dyingScenario = [0, 1]"
  "connections dyingScenario = [\<lparr>star1 = 0, star2 = 1\<rparr>]"
  "settings dyingScenario = scenarioSettings"
  "age (objs dyingScenario 0) = 167.5"
  "lifetime (objs dyingScenario 0) = 168"
  by (simp_all add: dyingScenario_def activeStarAt_def sampleStar_eq)

lemma dying_dead: "\<not> isAlive (objs (fst (updateStars 1 env dyingScenario)) 0)"
  by (simp add: updateStars_def isAlive_def updateStar_objs)

theorem dead_star_first_then_connections_witness:
  "(case update 1 (constEnv 0.5 4100) dyingScenario of
      Ok m1 \<Rightarrow> 0 \<notin> set (stars m1) \<and>
                0 \<notin> star1 ` set (connections m1) \<and> 0 \<notin> star2 ` set (connections m1)
    | Threw e m1 \<Rightarrow> False) \<and>
   0 \<in> set (stars dyingScenario) \<and>
   \<not> isAlive (objs (fst (updateStars 1 (constEnv 0.5 4100) dyingScenario)) 0)"
proof -
  have "\<not> fst (Math_random (snd (updateStars 1 (constEnv 0.5 4100) dyingScenario)))
       < starBirthReplacementRatio (settings dyingScenario) * 1
           / starBirthTimeDivisor (settings dyingScenario)"
    by (simp add: updateStars_constEnv scenarioSettings_def defaultSettings_def)
  from update_no_birth[OF this] obtain m1 where
    u: "update 1 (constEnv 0.5 4100) dyingScenario = Ok m1" by blast
  have s: "0 \<in> set (stars dyingScenario)" by simp
  from dead_star_first_then_connections[OF u s dying_dead] u s dying_dead
  show ?thesis by simp
qed

text \<open>
  The order that the claim states does not hold: in the tick of the witness, after the
  dead stars have been removed, star 0 is no longer in the array and the connection from
  star 0 to star 1 is still in the collection.
\<close>

theorem star_removed_before_connection_counterexample:
  "0 \<in> set (stars dyingScenario) \<and>
   0 \<notin> set (stars (snd (removeDeadStars (fst (updateStars 1 (constEnv 0.5 4100) dyingScenario))))) \<and>
   \<lparr>star1 = 0, star2 = 1\<rparr>
     \<in> set (connections
          (snd (removeDeadStars (fst (updateStars 1 (constEnv 0.5 4100) dyingScenario)))))"
  using dying_dead[of "constEnv 0.5 4100"] by simp

section \<open>The obscuration phase\<close>

subsection \<open>Obscuration\<close>

lemma applyDust_isObscured [simp]:
  "isObscured (applyDustObscuration st i False s) = i"
  by (auto simp: applyDustObscuration_def Let_def)

lemma applyDust_position [simp]:
  "position (applyDustObscuration st i b s) = position s"
  by (simp add: applyDustObscuration_def Let_def)

lemma applyDust_idem:
  "applyDustObscuration st i False (applyDustObscuration st i False s) =
   applyDustObscuration st i False s"
proof -
  have "isObscured (applyDustObscuration st i False s) = i" by simp
  then show ?thesis by (simp add: applyDustObscuration_def[of st i False "applyDustObscuration st i False s"])
qed

lemma obscuredByDust_cong:
  "dustGrid m1 = dustGrid m \<Longrightarrow> settings m1 = settings m \<Longrightarrow> position s1 = position s \<Longrightarrow>
   obscuredByDust m1 s1 = obscuredByDust m s"
  by (simp add: obscuredByDust_def nearbyClouds_def)

lemma obscure_fold_objs:
  "objs (foldl obscureStar m as) b =
     (if b \<in> set as
      then applyDustObscuration (settings m) (obscuredByDust m (objs m b)) False (objs m b)
      else objs m b)"
proof (induction as arbitrary: b rule: rev_induct)
  case Nil
  then show ?case by simp
next
  case (snoc x as)
  let ?mi = "foldl obscureStar m as"
  have fr: "dustGrid ?mi = dustGrid m" "settings ?mi = settings m"
    using obscure_fold_frame[of m as] by simp_all
  have pos: "position (objs ?mi x) = position (objs m x)"
    by (simp add: snoc.IH)
  have ob: "obscuredByDust ?mi (objs ?mi x) = obscuredByDust m (objs m x)"
    using fr pos by (rule obscuredByDust_cong)
  show ?case
  proof (cases "b = x")
    case True
    have "objs (foldl obscureStar m (as @ [x])) x =
        applyDustObscuration (settings m) (obscuredByDust m (objs m x)) False (objs ?mi x)"
      by (simp add: obscureStar_def ob fr)
    also have "\<dots> = applyDustObscuration (settings m) (obscuredByDust m (objs m x)) False (objs m x)"
      by (simp add: snoc.IH applyDust_idem)
    finally show ?thesis using True by simp
  next
    case False
    then have "objs (foldl obscureStar m (as @ [x])) b = objs ?mi b"
      by (simp add: obscureStar_def)
    then show ?thesis using False by (simp add: snoc.IH)
  qed
qed

lemma dustObscuration_objs:
  "a \<in> set (stars m) \<Longrightarrow>
   objs (dustObscuration m) a =
     applyDustObscuration (settings m) (obscuredByDust m (objs m a)) False (objs m a)"
  by (simp add: dustObscuration_def obscure_fold_objs)

text \<open>
  Claim C6, as the code has it. After the obscuration phase a star of the manager is marked
  obscured exactly when one of the clouds that the radius query of the dust grid returns
  for its position lies within its radius in planar (x, z) distance. A star that was
  obscured and no longer is gets the clear opacity and the colour of its activity state
  back; a star that becomes obscured gets the opacity and the colour of a star inside a
  cloud; a star whose mark does not change is left as it is.
\<close>

theorem obscured_iff_candidate_cloud:
  assumes "a \<in> set (stars m)"
  shows "(isObscured (objs (dustObscuration m) a) \<longleftrightarrow>
       list_ex (\<lambda>cloud. planarDistance (position (objs m a)) (cloud_position cloud)
                          \<le> cloud_radius cloud)
         (queryRadius (dustGrid m) (position (objs m a))
            (dustCloudMinRadius (settings m) + dustCloudRadiusRange (settings m)))) \<and>
     (isObscured (objs m a) \<and> \<not> isObscured (objs (dustObscuration m) a) \<longrightarrow>
        opacity (objs (dustObscuration m) a) = clearOpacity (settings m) \<and>
        materialColor (objs (dustObscuration m) a) =
          (if isActive (objs m a) then ActiveColor else BaseColor)) \<and>
     (\<not> isObscured (objs m a) \<and> isObscured (objs (dustObscuration m) a) \<longrightarrow>
        opacity (objs (dustObscuration m) a) = insideCloudOpacity (settings m) \<and>
        materialColor (objs (dustObscuration m) a) = InsideCloudColor) \<and>
     (isObscured (objs (dustObscuration m) a) = isObscured (objs m a) \<longrightarrow>
        objs (dustObscuration m) a = objs m a)"
proof -
  have o: "objs (dustObscuration m) a =
     applyDustObscuration (settings m) (obscuredByDust m (objs m a)) False (objs m a)"
    using assms by (rule dustObscuration_objs)
  have i: "isObscured (objs (dustObscuration m) a) = obscuredByDust m (objs m a)"
    unfolding o by simp
  show ?thesis
    unfolding i
    unfolding o
    by (auto simp: obscuredByDust_def nearbyClouds_def applyDustObscuration_def Let_def)
qed

lemma cloudScenario_fields [simp]:
  "stars (cloudScenario c) = [0, 1]"
  "dustClouds (cloudScenario c) = [c]"
  "settings (cloudScenario c) = scenarioSettings"
  "objs (cloudScenario c) = scenarioStore"
  "cellSize (dustGrid (cloudScenario c)) = 11.7325"
  by (simp_all add: cloudScenario_def scenario_def NetworkManager_new_def SpatialGrid_new_def
      scenarioSettings_def defaultSettings_def)

lemma cloudScenario_radius [simp]:
  "dustCloudMinRadius scenarioSettings + dustCloudRadiusRange scenarioSettings = 11.7325"
  "insideCloudOpacity scenarioSettings = 0.2"
  by (simp_all add: scenarioSettings_def defaultSettings_def)

lemma cloudScenario_grid:
  "grid (dustGrid (cloudScenario highCloud)) = [((0, 8, 0), [highCloud])]"
  "grid (dustGrid (cloudScenario nearCloud)) = [((0, 0, 0), [nearCloud])]"
  by (simp_all add: cloudScenario_def scenario_def NetworkManager_new_def SpatialGrid_new_def
      scenarioSettings_def defaultSettings_def insert_grid_def getCellKey_def
      highCloud_def nearCloud_def)

lemma cloudScenario_query:
  "queryRadius (dustGrid (cloudScenario highCloud)) (Vector3 0 0 0)
     (dustCloudMinRadius scenarioSettings + dustCloudRadiusRange scenarioSettings) = []"
  "queryRadius (dustGrid (cloudScenario nearCloud)) (Vector3 0 0 0)
     (dustCloudMinRadius scenarioSettings + dustCloudRadiusRange scenarioSettings) = [nearCloud]"
  unfolding queryRadius_def cloudScenario_grid
  by (simp_all add: getCellKey_def upto_around_zero)

lemma star0_not_obscured [simp]: "\<not> isObscured (scenarioStore 0)"
  by (simp add: scenarioStore_def activeStarAt_def sampleStar_eq)

theorem obscured_iff_candidate_cloud_witness:
  "0 \<in> set (stars (cloudScenario nearCloud)) \<and>
   \<not> isObscured (objs (cloudScenario nearCloud) 0) \<and>
   isObscured (objs (dustObscuration (cloudScenario nearCloud)) 0) \<and>
   opacity (objs (dustObscuration (cloudScenario nearCloud)) 0) = 0.2 \<and>
   materialColor (objs (dustObscuration (cloudScenario nearCloud)) 0) = InsideCloudColor"
proof -
  have s: "0 \<in> set (stars (cloudScenario nearCloud))" by simp
  have n: "\<not> isObscured (objs (cloudScenario nearCloud) 0)" by simp
  have p: "planarDistance (Vector3 0 0 0) (cloud_position nearCloud) \<le> cloud_radius nearCloud"
    by (simp add: planarDistance_def nearCloud_def sqrt_25)
  have q: "list_ex (\<lambda>cloud. planarDistance (position (objs (cloudScenario nearCloud) 0))
                (cloud_position cloud) \<le> cloud_radius cloud)
      (queryRadius (dustGrid (cloudScenario nearCloud)) (position (objs (cloudScenario nearCloud) 0))
         (dustCloudMinRadius (settings (cloudScenario nearCloud)) +
          dustCloudRadiusRange (settings (cloudScenario nearCloud))))"
    using p cloudScenario_query(2) by simp
  from obscured_iff_candidate_cloud[OF s] n q show ?thesis by simp
qed

text \<open>
  The claim as stated fails: the cloud at (0,100,0) has planar distance 0 from star 0, within
  its radius of 5, but it lies eight cells above the star and the query does not return
  it; the star is not marked obscured.
\<close>

theorem cloud_outside_query_counterexample:
  "0 \<in> set (stars (cloudScenario highCloud)) \<and>
   highCloud \<in> set (dustClouds (cloudScenario highCloud)) \<and>
   planarDistance (position (objs (cloudScenario highCloud) 0)) (cloud_position highCloud)
     \<le> cloud_radius highCloud \<and>
   \<not> isObscured (objs (dustObscuration (cloudScenario highCloud)) 0)"
proof -
  have "isObscured (objs (dustObscuration (cloudScenario highCloud)) 0) =
      obscuredByDust (cloudScenario highCloud) (objs (cloudScenario highCloud) 0)"
    by (simp add: dustObscuration_objs)
  also have "\<dots> = False"
    using cloudScenario_query(1) by (simp add: obscuredByDust_def nearbyClouds_def)
  finally show ?thesis
    by (simp add: planarDistance_def highCloud_def)
qed

section \<open>Birth of a star\<close>

subsection \<open>The birth phase\<close>

lemma updateStar_more_frame [simp]:
  "lastGalaxies (fst (updateStar dt me a)) = lastGalaxies (fst me)"
  "nextId (fst (updateStar dt me a)) = nextId (fst me)"
  by (simp_all add: updateStar_def Let_def split_beta)

lemma updateStars_more_frame [simp]:
  "lastGalaxies (fst (updateStars dt env m)) = lastGalaxies m"
  "nextId (fst (updateStars dt env m)) = nextId m"
proof -
  have "lastGalaxies (fst (foldl (updateStar dt) me as)) = lastGalaxies (fst me) \<and>
      nextId (fst (foldl (updateStar dt) me as)) = nextId (fst me)" for me as
    by (induction as arbitrary: me) simp_all
  from this[of "(m, env)" "stars m"]
  show "lastGalaxies (fst (updateStars dt env m)) = lastGalaxies m"
    "nextId (fst (updateStars dt env m)) = nextId m"
    by (simp_all add: updateStars_def)
qed

lemma removeDeadStars_more_frame [simp]:
  "lastGalaxies (snd (removeDeadStars m)) = lastGalaxies m"
  "nextId (snd (removeDeadStars m)) = nextId m"
  by (simp_all add: removeDeadStars_def)

text \<open>
  A successful birth draw never adds a star: with a recorded config the call of
  \<open>createSpiralGalaxy\<close> throws, and the rest of the tick is not run.
\<close>

lemma birth_draw_throws:
  assumes "real (length (stars m)) < maxStars (settings m)"
    and "real (length (stars m)) < starBirthPopulationThreshold (settings m)"
    and "fst (Math_random env)
           < starBirthReplacementRatio (settings m) * dt / starBirthTimeDivisor (settings m)"
    and "array_get (lastGalaxies m)
           \<lfloor>fst (Math_random (snd (Math_random env))) * real (length (lastGalaxies m))\<rfloor> = Some g"
    and "g_config g = Some cfg"
  shows "starBirth dt env m = Threw TypeError (m\<lparr>nextId := nextId m + 1\<rparr>)"
  using assms
  by (simp add: starBirth_def spawnInRandomGalaxy_def Let_def split_beta
      createSpiralGalaxy_config_one)

lemma birthScenario_fields [simp]:
  "stars birthScenario = [0, 1]"
  "settings birthScenario = scenarioSettings"
  "lastGalaxies birthScenario = [\<lparr>g_config = Some galaxy0\<rparr>]"
  "nextId birthScenario = 2"
  by (simp_all add: birthScenario_def scenario_def NetworkManager_new_def)

text \<open>
  Claim C5 at the failing input: two stars, the caps at 50000 and 5000, a frame of one
  second and a birth draw of 0. The draw succeeds, no star is spawned, and \<open>update\<close>
  throws a \<open>TypeError\<close> with the array of stars no longer than before.
\<close>

theorem birth_throws_instead_of_spawning:
  "update 1 (constEnv 0 0) birthScenario =
     Threw TypeError
       ((snd (removeDeadStars (fst (updateStars 1 (constEnv 0 0) birthScenario))))\<lparr>nextId := 3\<rparr>) \<and>
   stars (snd (removeDeadStars (fst (updateStars 1 (constEnv 0 0) birthScenario)))) =
     filter (\<lambda>a. isAlive (objs (fst (updateStars 1 (constEnv 0 0) birthScenario)) a)) [0, 1]"
proof -
  let ?m2 = "snd (removeDeadStars (fst (updateStars 1 (constEnv 0 0) birthScenario)))"
  have l: "length (stars ?m2) \<le> 2"
    using length_filter_le[of _ "[0, 1::nat]"] by simp
  have s: "settings ?m2 = scenarioSettings" by simp
  have g1: "real (length (stars ?m2)) < maxStars (settings ?m2)"
    and g2: "real (length (stars ?m2)) < starBirthPopulationThreshold (settings ?m2)"
    using l unfolding s by (simp_all add: scenarioSettings_def defaultSettings_def)
  have d: "fst (Math_random (constEnv 0 0))
      < starBirthReplacementRatio (settings ?m2) * 1 / starBirthTimeDivisor (settings ?m2)"
    unfolding s by (simp add: scenarioSettings_def defaultSettings_def)
  have a: "array_get (lastGalaxies ?m2)
      \<lfloor>fst (Math_random (snd (Math_random (constEnv 0 0)))) * real (length (lastGalaxies ?m2))\<rfloor>
      = Some \<lparr>g_config = Some galaxy0\<rparr>"
    by (simp add: array_get_def)
  have "starBirth 1 (constEnv 0 0) ?m2 = Threw TypeError (?m2\<lparr>nextId := nextId ?m2 + 1\<rparr>)"
    using g1 g2 d a by (rule birth_draw_throws) simp
  then show ?thesis
    by (simp add: update_def Let_def split_beta updateStars_constEnv)
qed

end
